theory Spec2Isabelle
  imports Complex_Main
begin

section \<open>Arcane Code Editor: the spell API, the event bus and the physics loop\<close>

text \<open>
  A shallow embedding of \<^verbatim>\<open>src/arcane_editor.py\<close>. The application object
  (\<^verbatim>\<open>MagicEditor\<close>) becomes a record that every method takes and returns; the Python
  objects that the code shares and mutates in place (Panda3D \<^verbatim>\<open>Vec3\<close> and
  \<^verbatim>\<open>NodePath\<close> objects) live in explicit stores addressed by references, so that
  aliasing is visible. Components of a \<^verbatim>\<open>Vec3\<close> are single-precision floats in
  Panda3D; they are idealised here as real numbers (no rounding). Python integers are
  \<open>int\<close>.
\<close>

subsection \<open>Vectors\<close>

datatype vec3 = Vec3 real real real

fun vec_add :: "vec3 \<Rightarrow> vec3 \<Rightarrow> vec3" where
  "vec_add (Vec3 a b c) (Vec3 x y z) = Vec3 (a + x) (b + y) (c + z)"

fun vec_scale :: "vec3 \<Rightarrow> real \<Rightarrow> vec3" where
  "vec_scale (Vec3 x y z) k = Vec3 (x * k) (y * k) (z * k)"

fun getZ_vec :: "vec3 \<Rightarrow> real" where
  "getZ_vec (Vec3 x y z) = z"

fun setZ_vec :: "vec3 \<Rightarrow> real \<Rightarrow> vec3" where
  "setZ_vec (Vec3 x y z) h = Vec3 x y h"

subsection \<open>Entities\<close>

text \<open>
  \<^verbatim>\<open>class Entity\<close>, \<^verbatim>\<open>class Player(Entity)\<close> and \<^verbatim>\<open>class Orb(Entity)\<close>.
  The fields \<open>node\<close> and \<open>velocity\<close> hold references into the stores of the
  editor. An orb's \<open>element\<close> is \<^verbatim>\<open>None\<close>, \<^verbatim>\<open>"fire"\<close> or \<^verbatim>\<open>"water"\<close>.
\<close>

record entity =
  name :: string
  node :: nat
  velocity :: nat

record player = entity +
  mana :: int
  fire :: int
  water :: int
  hands :: entity
  feet :: entity

record orb = entity +
  element :: "string option"

text \<open>The part of a Panda3D \<^verbatim>\<open>NodePath\<close> that the code reads or writes.\<close>

record node_path =
  pos :: vec3
  scale :: real
  color :: "(real \<times> real \<times> real \<times> real) option"

text \<open>
  What a spell or a callback can hold a reference to: the player, its two body parts,
  the ground (passed to \<^verbatim>\<open>impact\<close> callbacks) and the orbs. Orbs are only ever
  appended to \<^verbatim>\<open>self.orbs\<close>, so the index there identifies the orb object.
\<close>

datatype entity_ref = PlayerRef | HandsRef | FeetRef | GroundRef | OrbRef nat

text \<open>
  A force value: an existing \<^verbatim>\<open>Vec3\<close> object (by reference) or a sequence of three
  numbers. Sequences of another length and non-numeric components are outside the type.
\<close>

datatype force_value = Vec3Obj nat | Tuple3 real real real

subsection \<open>Exceptions\<close>

text \<open>
  \<open>RuntimeError\<close> is what the API raises. \<open>OtherException\<close> is any other class
  derived from \<^verbatim>\<open>Exception\<close> (class name, message): the failures of a script or a
  callback. \<open>NonException\<close> is a class outside \<^verbatim>\<open>Exception\<close>
  (\<^verbatim>\<open>KeyboardInterrupt\<close>, \<^verbatim>\<open>SystemExit\<close>, \<^verbatim>\<open>GeneratorExit\<close>), which a clause
  \<^verbatim>\<open>except Exception\<close> does not handle.
\<close>

datatype exc = RuntimeError string | OtherException string string | NonException string string

fun is_Exception :: "exc \<Rightarrow> bool" where
  "is_Exception (RuntimeError m) = True"
| "is_Exception (OtherException c m) = True"
| "is_Exception (NonException c m) = False"

fun str_exc :: "exc \<Rightarrow> string" where
  "str_exc (RuntimeError m) = m"
| "str_exc (OtherException c m) = m"
| "str_exc (NonException c m) = m"

subsection \<open>The application state\<close>

text \<open>
  \<open>code\<close> is the text of the editor widget and the four \<open>_var\<close> fields are the Tk
  label variables. \<open>nodes\<close> and \<open>vecs\<close> are the stores of \<^verbatim>\<open>NodePath\<close> and
  \<^verbatim>\<open>Vec3\<close> objects, \<open>next_node\<close> and \<open>next_vec\<close> the first unused references.
  \<open>event_handlers\<close> is the \<^verbatim>\<open>defaultdict(list)\<close>; a callback is a value of the type
  parameter \<open>'cb\<close>. \<open>stdout\<close> collects the lines written by \<^verbatim>\<open>print\<close>.
\<close>

record 'cb editor =
  code :: string
  mana_var :: string
  fire_var :: string
  water_var :: string
  msg_var :: string
  nodes :: "nat \<Rightarrow> node_path"
  next_node :: nat
  vecs :: "nat \<Rightarrow> vec3"
  next_vec :: nat
  ground :: entity
  player :: player
  event_handlers :: "string \<rightharpoonup> 'cb list"
  orbs :: "orb list"
  stdout :: "string list"

subsection \<open>Store operations\<close>

text \<open>\<^verbatim>\<open>Vec3(x, y, z)\<close>: a new object.\<close>

definition new_vec :: "vec3 \<Rightarrow> 'cb editor \<Rightarrow> nat \<times> 'cb editor" where
  "new_vec v s = (next_vec s, s\<lparr>vecs := (vecs s)(next_vec s := v), next_vec := Suc (next_vec s)\<rparr>)"

text \<open>\<^verbatim>\<open>self.loader.loadModel("models/smiley")\<close>: a new node, at the origin, unscaled.\<close>

definition loadModel :: "'cb editor \<Rightarrow> nat \<times> 'cb editor" where
  "loadModel s =
     (next_node s,
      s\<lparr>nodes := (nodes s)(next_node s := \<lparr>pos = Vec3 0 0 0, scale = 1, color = None\<rparr>),
        next_node := Suc (next_node s)\<rparr>)"

definition getPos :: "'cb editor \<Rightarrow> nat \<Rightarrow> vec3" where
  "getPos s n = pos (nodes s n)"

definition setPos :: "nat \<Rightarrow> vec3 \<Rightarrow> 'cb editor \<Rightarrow> 'cb editor" where
  "setPos n p s = s\<lparr>nodes := (nodes s)(n := (nodes s n)\<lparr>pos := p\<rparr>)\<rparr>"

definition getZ :: "'cb editor \<Rightarrow> nat \<Rightarrow> real" where
  "getZ s n = getZ_vec (getPos s n)"

definition setZ :: "nat \<Rightarrow> real \<Rightarrow> 'cb editor \<Rightarrow> 'cb editor" where
  "setZ n h s = setPos n (setZ_vec (getPos s n) h) s"

definition setScale :: "nat \<Rightarrow> real \<Rightarrow> 'cb editor \<Rightarrow> 'cb editor" where
  "setScale n k s = s\<lparr>nodes := (nodes s)(n := (nodes s n)\<lparr>scale := k\<rparr>)\<rparr>"

definition setColor :: "nat \<Rightarrow> real \<times> real \<times> real \<times> real \<Rightarrow> 'cb editor \<Rightarrow> 'cb editor" where
  "setColor n c s = s\<lparr>nodes := (nodes s)(n := (nodes s n)\<lparr>color := Some c\<rparr>)\<rparr>"

text \<open>The \<^verbatim>\<open>Vec3\<close> object that is the velocity of the entity behind a reference.\<close>

fun velocity_of :: "'cb editor \<Rightarrow> entity_ref \<Rightarrow> nat" where
  "velocity_of s PlayerRef = velocity (player s)"
| "velocity_of s HandsRef = velocity (hands (player s))"
| "velocity_of s FeetRef = velocity (feet (player s))"
| "velocity_of s GroundRef = velocity (ground s)"
| "velocity_of s (OrbRef i) = velocity (orbs s ! i)"

subsection \<open>The spell API\<close>

text \<open>
  \<^verbatim>\<open>_parse_vec\<close>: a \<^verbatim>\<open>Vec3\<close> is returned as it is (the same object), anything else
  is unpacked into a new \<^verbatim>\<open>Vec3\<close>.
\<close>

fun parse_vec :: "force_value \<Rightarrow> 'cb editor \<Rightarrow> nat \<times> 'cb editor" where
  "parse_vec (Vec3Obj r) s = (r, s)"
| "parse_vec (Tuple3 x y z) s = new_vec (Vec3 x y z) s"

text \<open>
  \<^verbatim>\<open>create_orb\<close>. A method returns the pair of its outcome (\<open>Inl\<close> an exception raised,
  \<open>Inr\<close> the value returned) and the state it leaves. \<^verbatim>\<open>Orb(model)\<close> runs
  \<^verbatim>\<open>Entity.__init__\<close>, which allocates a zero velocity that the next statement replaces.
\<close>

definition create_orb :: "force_value \<Rightarrow> 'cb editor \<Rightarrow> (exc + nat) \<times> 'cb editor" where
  "create_orb force_value s =
     (if mana (player s) < 10 then (Inl (RuntimeError ''Not enough mana to create orb''), s)
      else
        let s1 = s\<lparr>player := (player s)\<lparr>mana := mana (player s) - 10\<rparr>\<rparr>;
            (model, s2) = loadModel s1;
            s3 = setScale model 0.3 s2;
            s4 = setPos model (vec_add (getPos s3 (node (player s3))) (Vec3 0 2 1)) s3;
            (v0, s5) = new_vec (Vec3 0 0 0) s4;
            new_orb = \<lparr>name = ''orb'', node = model, velocity = v0, element = None\<rparr>;
            (v, s6) = parse_vec force_value s5;
            new_orb = new_orb\<lparr>velocity := v\<rparr>
        in (Inr (length (orbs s6)), s6\<lparr>orbs := orbs s6 @ [new_orb]\<rparr>))"

definition use_fire :: "nat \<Rightarrow> 'cb editor \<Rightarrow> (exc + unit) \<times> 'cb editor" where
  "use_fire i s =
     (if fire (player s) < 5 then (Inl (RuntimeError ''Not enough fire energy''), s)
      else
        let s1 = s\<lparr>player := (player s)\<lparr>fire := fire (player s) - 5\<rparr>\<rparr>;
            s2 = s1\<lparr>orbs := (orbs s1)[i := (orbs s1 ! i)\<lparr>element := Some ''fire''\<rparr>]\<rparr>
        in (Inr (), setColor (node (orbs s2 ! i)) (1, 0.3, 0.2, 1) s2))"

definition use_water :: "nat \<Rightarrow> 'cb editor \<Rightarrow> (exc + unit) \<times> 'cb editor" where
  "use_water i s =
     (if water (player s) < 5 then (Inl (RuntimeError ''Not enough water energy''), s)
      else
        let s1 = s\<lparr>player := (player s)\<lparr>water := water (player s) - 5\<rparr>\<rparr>;
            s2 = s1\<lparr>orbs := (orbs s1)[i := (orbs s1 ! i)\<lparr>element := Some ''water''\<rparr>]\<rparr>
        in (Inr (), setColor (node (orbs s2 ! i)) (0.3, 0.3, 1, 1) s2))"

text \<open>
  \<^verbatim>\<open>entity.velocity += self._parse_vec(force_value)\<close>: the entity's \<^verbatim>\<open>Vec3\<close> is
  looked up first, then the argument is parsed, then the sum is written into the same
  object.
\<close>

definition apply_force_to :: "entity_ref \<Rightarrow> force_value \<Rightarrow> 'cb editor \<Rightarrow> 'cb editor" where
  "apply_force_to e force_value s =
     (let r = velocity_of s e;
          (v, s1) = parse_vec force_value s
      in s1\<lparr>vecs := (vecs s1)(r := vec_add (vecs s1 r) (vecs s1 v))\<rparr>)"

text \<open>\<^verbatim>\<open>self.event_handlers.get(event_type, [])\<close>\<close>

definition handlers_of :: "'cb editor \<Rightarrow> string \<Rightarrow> 'cb list" where
  "handlers_of s event_type = (case event_handlers s event_type of None \<Rightarrow> [] | Some l \<Rightarrow> l)"

text \<open>\<^verbatim>\<open>self.event_handlers[event_type].append(callback)\<close> on the \<^verbatim>\<open>defaultdict\<close>.\<close>

definition on_event :: "string \<Rightarrow> 'cb \<Rightarrow> 'cb editor \<Rightarrow> 'cb editor" where
  "on_event event_type callback s =
     s\<lparr>event_handlers := (event_handlers s)(event_type \<mapsto> handlers_of s event_type @ [callback])\<rparr>"

subsection \<open>The event bus\<close>

text \<open>
  Spell code and callbacks are Python code, run by the interpreter. Their behaviour is a
  parameter of the model: \<open>call cb args s\<close> is what calling the callback \<open>cb\<close> on
  \<open>args\<close> in state \<open>s\<close> does. \<open>None\<close> means that the call does not return;
  otherwise the result is the outcome (\<open>Inl\<close> an exception raised, \<open>Inr ()\<close> a
  normal return) and the state left behind, with whatever the callback changed before.
\<close>

type_synonym 'cb outcome = "((exc + unit) \<times> 'cb editor) option"

type_synonym 'cb calling = "'cb \<Rightarrow> entity_ref list \<Rightarrow> 'cb editor \<Rightarrow> 'cb outcome"

definition print :: "string \<Rightarrow> 'cb editor \<Rightarrow> 'cb editor" where
  "print line s = s\<lparr>stdout := stdout s @ [line]\<rparr>"

text \<open>
  \<^verbatim>\<open>trigger_event\<close>. The \<^verbatim>\<open>for\<close> loop walks the registered list itself, by
  position, and looks at its length before every step: a callback that registers
  another one for the same event lengthens the walk. \<open>trigger_from\<close> is the loop from
  position \<open>k\<close> on. An exception of a class under \<^verbatim>\<open>Exception\<close> is printed and the
  loop goes on; any other exception leaves the loop and the method.
\<close>

partial_function (option) trigger_from ::
  "'cb calling \<Rightarrow> string \<Rightarrow> entity_ref list \<Rightarrow> nat \<Rightarrow> 'cb editor \<Rightarrow> ((exc + unit) \<times> 'cb editor) option"
where
  "trigger_from call event_type args k s =
     (if k < length (handlers_of s event_type) then
        (case call (handlers_of s event_type ! k) args s of
           None \<Rightarrow> None
         | Some (Inr u, s') \<Rightarrow> trigger_from call event_type args (Suc k) s'
         | Some (Inl e, s') \<Rightarrow>
             if is_Exception e
             then trigger_from call event_type args (Suc k)
                    (print (''Error in event handler: '' @ str_exc e) s')
             else Some (Inl e, s'))
      else Some (Inr (), s))"

definition trigger_event :: "'cb calling \<Rightarrow> string \<Rightarrow> entity_ref list \<Rightarrow> 'cb editor \<Rightarrow> 'cb outcome" where
  "trigger_event call event_type args s = trigger_from call event_type args 0 s"

subsection \<open>The physics loop\<close>

text \<open>
  The first two statements of the loop body of \<^verbatim>\<open>update_physics\<close>, for the orb at
  position \<open>i\<close> of \<^verbatim>\<open>self.orbs\<close>: the node is moved by velocity times \<open>dt\<close>, then the
  velocity object is scaled in place.
\<close>

definition advance_orb :: "real \<Rightarrow> nat \<Rightarrow> 'cb editor \<Rightarrow> 'cb editor" where
  "advance_orb dt i s =
     (let orb = orbs s ! i;
          s1 = setPos (node orb) (vec_add (getPos s (node orb)) (vec_scale (vecs s (velocity orb)) dt)) s
      in s1\<lparr>vecs := (vecs s1)(velocity orb := vec_scale (vecs s1 (velocity orb)) 0.98)\<rparr>)"

text \<open>\<^verbatim>\<open>orb.velocity = Vec3(0, 0, 0)\<close>: the orb gets a new velocity object.\<close>

definition stop_orb :: "nat \<Rightarrow> 'cb editor \<Rightarrow> 'cb editor" where
  "stop_orb i s =
     (let (z, s') = new_vec (Vec3 0 0 0) s
      in s'\<lparr>orbs := (orbs s')[i := (orbs s' ! i)\<lparr>velocity := z\<rparr>]\<rparr>)"

text \<open>
  The whole loop body: after the two statements above, the collision with the ground.
  An exception that \<^verbatim>\<open>trigger_event\<close> lets through ends the body before the
  velocity is replaced.
\<close>

definition step_orb :: "'cb calling \<Rightarrow> real \<Rightarrow> nat \<Rightarrow> 'cb editor \<Rightarrow> 'cb outcome" where
  "step_orb call dt i s =
     (let s2 = advance_orb dt i s in
      if getZ s2 (node (orbs s2 ! i)) \<le> 0 then
        (let s3 = setZ (node (orbs s2 ! i)) 0 s2 in
         case trigger_event call ''impact'' [OrbRef i, GroundRef] s3 of
           None \<Rightarrow> None
         | Some (Inl e, s4) \<Rightarrow> Some (Inl e, s4)
         | Some (Inr u, s4) \<Rightarrow> Some (Inr (), stop_orb i s4))
      else Some (Inr (), s2))"

text \<open>
  \<^verbatim>\<open>update_physics\<close>: \<open>dt\<close> is what \<^verbatim>\<open>globalClock.getDt()\<close> returns. The loop
  walks \<^verbatim>\<open>self.orbs\<close> by position, so an orb created by a callback during the tick is
  reached in the same tick. The list \<^verbatim>\<open>to_remove\<close> of the source is never used.
\<close>

partial_function (option) physics_from ::
  "'cb calling \<Rightarrow> real \<Rightarrow> nat \<Rightarrow> 'cb editor \<Rightarrow> ((exc + unit) \<times> 'cb editor) option"
where
  "physics_from call dt i s =
     (if i < length (orbs s) then
        (case step_orb call dt i s of
           None \<Rightarrow> None
         | Some (Inl e, s') \<Rightarrow> Some (Inl e, s')
         | Some (Inr u, s') \<Rightarrow> physics_from call dt (Suc i) s')
      else Some (Inr (), s))"

definition update_physics :: "'cb calling \<Rightarrow> real \<Rightarrow> 'cb editor \<Rightarrow> 'cb outcome" where
  "update_physics call dt s = physics_from call dt 0 s"

subsection \<open>Casting a spell\<close>

text \<open>Python's \<^verbatim>\<open>str\<close> of an integer, for the labels.\<close>

fun str_nat :: "nat \<Rightarrow> string" where
  "str_nat n = (if n < 10 then [''0123456789'' ! n] else str_nat (n div 10) @ [''0123456789'' ! (n mod 10)])"

declare str_nat.simps [simp del]

definition str_int :: "int \<Rightarrow> string" where
  "str_int i = (if i < 0 then CHR ''-'' # str_nat (nat (- i)) else str_nat (nat i))"

definition update_stats :: "'cb editor \<Rightarrow> 'cb editor" where
  "update_stats s =
     s\<lparr>mana_var := ''Mana: '' @ str_int (mana (player s)),
       fire_var := ''Fire: '' @ str_int (fire (player s)),
       water_var := ''Water: '' @ str_int (water (player s))\<rparr>"

text \<open>
  The objects that \<^verbatim>\<open>cast_spell\<close> puts into the namespace of a spell: the builtin
  functions \<^verbatim>\<open>min\<close> and \<^verbatim>\<open>max\<close>, the builtin type \<^verbatim>\<open>range\<close>, methods bound to
  the application (\<^verbatim>\<open>self.create_orb\<close> and the others), the player object, a
  dictionary; the two objects that those refer to, the application itself and the
  module \<^verbatim>\<open>builtins\<close>; and the truth values, for the constant \<^verbatim>\<open>__debug__\<close>.
\<close>

datatype py_value =
    BuiltinFunction string
  | BuiltinType string
  | BoundMethod py_value string
  | PlayerObject
  | Application
  | BuiltinsModule
  | BoolObject bool
  | DictObject "(string \<times> py_value) list"

text \<open>\<^verbatim>\<open>dict.update\<close> with one pair, on a dictionary kept in insertion order.\<close>

fun dict_set :: "string \<Rightarrow> py_value \<Rightarrow> (string \<times> py_value) list \<Rightarrow> (string \<times> py_value) list" where
  "dict_set k v [] = [(k, v)]"
| "dict_set k v ((k', v') # d) = (if k = k' then (k, v) # d else (k', v') # dict_set k v d)"

fun dict_update :: "(string \<times> py_value) list \<Rightarrow> (string \<times> py_value) list \<Rightarrow> (string \<times> py_value) list" where
  "dict_update d [] = d"
| "dict_update d ((k, v) # kvs) = dict_update (dict_set k v d) kvs"

definition allowed_builtins :: "(string \<times> py_value) list" where
  "allowed_builtins =
     [(''range'', BuiltinType ''range''), (''min'', BuiltinFunction ''min''), (''max'', BuiltinFunction ''max'')]"

definition safe_globals :: "(string \<times> py_value) list" where
  "safe_globals =
     dict_update
       [(''__builtins__'', DictObject allowed_builtins), (''player'', PlayerObject)]
       [(''create_orb'', BoundMethod Application ''create_orb''),
        (''use_fire'', BoundMethod Application ''use_fire''),
        (''use_water'', BoundMethod Application ''use_water''),
        (''apply_force_to'', BoundMethod Application ''apply_force_to''),
        (''on_event'', BoundMethod Application ''on_event'')]"

text \<open>
  The interpreter's \<^verbatim>\<open>exec(code, globals, locals)\<close> is a parameter, like the calling of
  callbacks: \<open>exec code globals locals s\<close> is the outcome of running the text in state
  \<open>s\<close>, with the state as the statements before a fault left it.
\<close>

type_synonym 'cb executing =
  "string \<Rightarrow> (string \<times> py_value) list \<Rightarrow> (string \<times> py_value) list \<Rightarrow> 'cb editor \<Rightarrow> 'cb outcome"

text \<open>
  What the interpreter does with the spell that the editor starts with,
  \<^verbatim>\<open>orb = create_orb((10, 0, 15))\<close> and then \<^verbatim>\<open>use_fire(orb)\<close>: the second call
  runs on the orb that the first returned, and an exception of either ends the spell.
\<close>

definition example_spell :: "'cb executing" where
  "example_spell text globals locals s =
     (case create_orb (Tuple3 10 0 15) s of
        (Inl e, s1) \<Rightarrow> Some (Inl e, s1)
      | (Inr orb, s1) \<Rightarrow> Some (use_fire orb s1))"

text \<open>
  \<^verbatim>\<open>cast_spell\<close>. \<^verbatim>\<open>self.update_stats()\<close> follows the \<^verbatim>\<open>try\<close> statement, so an
  exception outside \<^verbatim>\<open>Exception\<close> skips it.
\<close>

definition cast_spell :: "'cb executing \<Rightarrow> 'cb editor \<Rightarrow> 'cb outcome" where
  "cast_spell exec s =
     (case exec (code s) safe_globals [] s of
        None \<Rightarrow> None
      | Some (Inr u, s') \<Rightarrow> Some (Inr (), update_stats (s'\<lparr>msg_var := ''Spell cast successfully''\<rparr>))
      | Some (Inl e, s') \<Rightarrow>
          if is_Exception e
          then Some (Inr (), update_stats (s'\<lparr>msg_var := ''Error: '' @ str_exc e\<rparr>))
          else Some (Inl e, s'))"

subsection \<open>Names and attributes in a spell\<close>

text \<open>
  How the interpreter resolves a name in code run by \<^verbatim>\<open>exec(code, globals, locals)\<close>:
  the locals, then the globals, then the dictionary under \<^verbatim>\<open>__builtins__\<close> of the
  globals; a name in none of them raises \<^verbatim>\<open>NameError\<close>. The name \<^verbatim>\<open>__debug__\<close>
  is no lookup: the compiler replaces it by the constant, which is \<^verbatim>\<open>True\<close> unless the
  interpreter runs optimised.
\<close>

definition name_error :: "string \<Rightarrow> exc" where
  "name_error x = OtherException ''NameError'' (''name '' @ [CHR 0x27] @ x @ [CHR 0x27] @ '' is not defined'')"

definition lookup_name ::
  "(string \<times> py_value) list \<Rightarrow> (string \<times> py_value) list \<Rightarrow> string \<Rightarrow> exc + py_value" where
  "lookup_name locals globals x =
     (if x = ''__debug__'' then Inr (BoolObject True)
      else
        case map_of locals x of
          Some v \<Rightarrow> Inr v
        | None \<Rightarrow>
            (case map_of globals x of
               Some v \<Rightarrow> Inr v
             | None \<Rightarrow>
                 (case map_of globals ''__builtins__'' of
                    Some (DictObject b) \<Rightarrow>
                      (case map_of b x of Some v \<Rightarrow> Inr v | None \<Rightarrow> Inl (name_error x))
                  | _ \<Rightarrow> Inl (name_error x))))"

text \<open>
  The attribute \<^verbatim>\<open>__self__\<close>: of a bound method it is the object the method is bound
  to, of a builtin function the module \<^verbatim>\<open>builtins\<close>; the other objects have none. The
  interpreter does not consult the namespace for it.
\<close>

fun describe :: "py_value \<Rightarrow> string" where
  "describe (BuiltinFunction f) = [CHR 0x27] @ ''builtin_function_or_method'' @ [CHR 0x27] @ '' object''"
| "describe (BuiltinType c) = ''type object '' @ [CHR 0x27] @ c @ [CHR 0x27]"
| "describe (BoundMethod obj f) = [CHR 0x27] @ ''method'' @ [CHR 0x27] @ '' object''"
| "describe PlayerObject = [CHR 0x27] @ ''Player'' @ [CHR 0x27] @ '' object''"
| "describe Application = [CHR 0x27] @ ''MagicEditor'' @ [CHR 0x27] @ '' object''"
| "describe BuiltinsModule = ''module '' @ [CHR 0x27] @ ''builtins'' @ [CHR 0x27]"
| "describe (BoolObject b) = [CHR 0x27] @ ''bool'' @ [CHR 0x27] @ '' object''"
| "describe (DictObject d) = [CHR 0x27] @ ''dict'' @ [CHR 0x27] @ '' object''"

fun get_self :: "py_value \<Rightarrow> exc + py_value" where
  "get_self (BoundMethod obj f) = Inr obj"
| "get_self (BuiltinFunction f) = Inr BuiltinsModule"
| "get_self v =
     Inl (OtherException ''AttributeError''
            (describe v @ '' has no attribute '' @ [CHR 0x27] @ ''__self__'' @ [CHR 0x27]))"

text \<open>
  The expressions made of a name and \<^verbatim>\<open>.__self__\<close>, and the statement that evaluates
  one and drops the value, as \<^verbatim>\<open>exec\<close> runs it.
\<close>

datatype expr = Name string | SelfOf expr

fun eval_expr :: "(string \<times> py_value) list \<Rightarrow> (string \<times> py_value) list \<Rightarrow> expr \<Rightarrow> exc + py_value" where
  "eval_expr locals globals (Name x) = lookup_name locals globals x"
| "eval_expr locals globals (SelfOf e) =
     (case eval_expr locals globals e of Inl err \<Rightarrow> Inl err | Inr v \<Rightarrow> get_self v)"

definition exec_expr :: "expr \<Rightarrow> 'cb executing" where
  "exec_expr e text globals locals s =
     (case eval_expr locals globals e of
        Inl err \<Rightarrow> Some (Inl err, s)
      | Inr v \<Rightarrow> Some (Inr (), s))"

subsection \<open>The state after start-up\<close>

text \<open>
  \<^verbatim>\<open>MagicEditor.__init__\<close> with \<^verbatim>\<open>setup_scene\<close>: the ground (node 0, velocity 0),
  the player (node 1 at height 0.5, velocity 1) whose hands and feet share its node, no
  orbs, no handlers, the example spell in the editor and the labels as
  \<^verbatim>\<open>update_stats\<close> writes them.
\<close>

definition setup_scene :: "'cb editor" where
  "setup_scene =
     \<lparr>code = ''# Example spell'' @ [CHR 0x0A] @ ''orb = create_orb((10, 0, 15))'' @ [CHR 0x0A]
              @ ''use_fire(orb)'' @ [CHR 0x0A] @ [CHR 0x0A],
      mana_var = [], fire_var = [], water_var = [], msg_var = [],
      nodes = (\<lambda>n. \<lparr>pos = Vec3 0 0 0, scale = 1, color = None\<rparr>)
        (0 := \<lparr>pos = Vec3 0 0 0, scale = 1, color = Some (0.5, 0.5, 0.5, 1)\<rparr>,
         1 := \<lparr>pos = Vec3 0 0 0.5, scale = 0.5, color = None\<rparr>),
      next_node = 2,
      vecs = (\<lambda>n. Vec3 0 0 0),
      next_vec = 4,
      ground = \<lparr>name = ''ground'', node = 0, velocity = 0\<rparr>,
      player = \<lparr>name = ''player'', node = 1, velocity = 1, mana = 100, fire = 50, water = 50,
                hands = \<lparr>name = ''hands'', node = 1, velocity = 2\<rparr>,
                feet = \<lparr>name = ''feet'', node = 1, velocity = 3\<rparr>\<rparr>,
      event_handlers = Map.empty,
      orbs = [],
      stdout = []\<rparr>"

definition init_editor :: "'cb editor" where
  "init_editor = update_stats setup_scene"

section \<open>Notions used to state the properties\<close>

text \<open>The vector that a force value stands for, and whether its object exists.\<close>

definition force_vec :: "'cb editor \<Rightarrow> force_value \<Rightarrow> vec3" where
  "force_vec s f = (case f of Vec3Obj r \<Rightarrow> vecs s r | Tuple3 x y z \<Rightarrow> Vec3 x y z)"

definition valid_force :: "'cb editor \<Rightarrow> force_value \<Rightarrow> bool" where
  "valid_force s f = (case f of Vec3Obj r \<Rightarrow> r < next_vec s | Tuple3 x y z \<Rightarrow> True)"

text \<open>
  A sequence of registrations, \<^verbatim>\<open>on_event(event_type, callback)\<close> one after the other,
  and the callbacks that the sequence registers for one event, in the order of the calls.
\<close>

fun register_all :: "(string \<times> 'cb) list \<Rightarrow> 'cb editor \<Rightarrow> 'cb editor" where
  "register_all [] s = s"
| "register_all ((event_type, callback) # regs) s = register_all regs (on_event event_type callback s)"

definition registered_for :: "string \<Rightarrow> (string \<times> 'cb) list \<Rightarrow> 'cb list" where
  "registered_for event_type regs = map snd (filter (\<lambda>r. fst r = event_type) regs)"

text \<open>
  One callback as the dispatch loop treats it: the state it leaves, with the report
  printed when it raised.
\<close>

definition handled :: "'cb calling \<Rightarrow> entity_ref list \<Rightarrow> 'cb editor \<Rightarrow> 'cb \<Rightarrow> 'cb editor" where
  "handled call args s cb =
     (case call cb args s of
        None \<Rightarrow> s
      | Some (Inr u, s') \<Rightarrow> s'
      | Some (Inl e, s') \<Rightarrow> print (''Error in event handler: '' @ str_exc e) s')"

text \<open>
  A callback that, in every state, returns or raises a failure (an exception of a class
  under \<^verbatim>\<open>Exception\<close>) and registers nothing for the event being dispatched.
\<close>

definition fails_or_returns :: "'cb calling \<Rightarrow> string \<Rightarrow> entity_ref list \<Rightarrow> 'cb \<Rightarrow> bool" where
  "fails_or_returns call event_type args cb =
     (\<forall>t. case call cb args t of
            None \<Rightarrow> False
          | Some (Inr u, t') \<Rightarrow> handlers_of t' event_type = handlers_of t event_type
          | Some (Inl e, t') \<Rightarrow> is_Exception e \<and> handlers_of t' event_type = handlers_of t event_type)"


text \<open>The resource invariant.\<close>

definition resources_nonneg :: "'cb editor \<Rightarrow> bool" where
  "resources_nonneg s = (0 \<le> mana (player s) \<and> 0 \<le> fire (player s) \<and> 0 \<le> water (player s))"

text \<open>Callbacks that keep the resource invariant, as those that act through the API do.\<close>

definition preserves_resources :: "'cb calling \<Rightarrow> bool" where
  "preserves_resources call =
     (\<forall>cb args t out t'. call cb args t = Some (out, t') \<longrightarrow> resources_nonneg t \<longrightarrow> resources_nonneg t')"

text \<open>
  A run of the core: a sequence of operations, each on the state the one before left
  (whether it raised or not). \<open>None\<close> when an operation does not return.
\<close>

datatype 'cb operation =
    Create_orb force_value
  | Use_fire nat
  | Use_water nat
  | Apply_force_to entity_ref force_value
  | On_event string 'cb
  | Update_physics real
  | Trigger_event string "entity_ref list"

fun perform :: "'cb calling \<Rightarrow> 'cb operation \<Rightarrow> 'cb editor \<Rightarrow> 'cb editor option" where
  "perform call (Create_orb f) s = Some (snd (create_orb f s))"
| "perform call (Use_fire i) s = Some (snd (use_fire i s))"
| "perform call (Use_water i) s = Some (snd (use_water i s))"
| "perform call (Apply_force_to e f) s = Some (apply_force_to e f s)"
| "perform call (On_event ev cb) s = Some (on_event ev cb s)"
| "perform call (Update_physics dt) s = map_option snd (update_physics call dt s)"
| "perform call (Trigger_event ev args) s = map_option snd (trigger_event call ev args s)"

fun perform_all :: "'cb calling \<Rightarrow> 'cb operation list \<Rightarrow> 'cb editor \<Rightarrow> 'cb editor option" where
  "perform_all call [] s = Some s"
| "perform_all call (op # ops) s =
     (case perform call op s of None \<Rightarrow> None | Some s' \<Rightarrow> perform_all call ops s')"

text \<open>
  Spells and callbacks that only call the API: a sequence of calls with their arguments,
  run one after the other until one raises. A callback registered by such code is again
  a sequence of calls.
\<close>

datatype api_call =
    Call_create_orb force_value
  | Call_use_fire nat
  | Call_use_water nat
  | Call_apply_force_to entity_ref force_value
  | Call_on_event string "api_call list"

fun run_call :: "api_call \<Rightarrow> api_call list editor \<Rightarrow> (exc + unit) \<times> api_call list editor" where
  "run_call (Call_create_orb f) s =
     (case create_orb f s of (Inl e, s') \<Rightarrow> (Inl e, s') | (Inr orb, s') \<Rightarrow> (Inr (), s'))"
| "run_call (Call_use_fire i) s = use_fire i s"
| "run_call (Call_use_water i) s = use_water i s"
| "run_call (Call_apply_force_to e f) s = (Inr (), apply_force_to e f s)"
| "run_call (Call_on_event ev cb) s = (Inr (), on_event ev cb s)"

fun run_calls :: "api_call list \<Rightarrow> api_call list editor \<Rightarrow> (exc + unit) \<times> api_call list editor" where
  "run_calls [] s = (Inr (), s)"
| "run_calls (c # cs) s =
     (case run_call c s of (Inl e, s') \<Rightarrow> (Inl e, s') | (Inr u, s') \<Rightarrow> run_calls cs s')"

definition api_callback :: "api_call list calling" where
  "api_callback cb args s = Some (run_calls cb s)"

definition api_spell :: "api_call list \<Rightarrow> api_call list executing" where
  "api_spell cs text globals locals s = Some (run_calls cs s)"

section \<open>The start-up state\<close>

lemma init_editor_simps [simp]:
  "player init_editor = \<lparr>name = ''player'', node = 1, velocity = 1, mana = 100, fire = 50, water = 50,
                hands = \<lparr>name = ''hands'', node = 1, velocity = 2\<rparr>,
                feet = \<lparr>name = ''feet'', node = 1, velocity = 3\<rparr>\<rparr>"
  "orbs init_editor = []"
  "next_node init_editor = 2"
  "next_vec init_editor = 4"
  "event_handlers init_editor = Map.empty"
  "stdout init_editor = []"
  "ground init_editor = \<lparr>name = ''ground'', node = 0, velocity = 0\<rparr>"
  "vecs init_editor = (\<lambda>n. Vec3 0 0 0)"
  "getPos init_editor (Suc 0) = Vec3 0 0 0.5"
  by (simp_all add: init_editor_def update_stats_def setup_scene_def getPos_def)

lemma first_orb:
  "orbs (snd (create_orb (Tuple3 x y z) (init_editor :: 'cb editor))) = [\<lparr>name = ''orb'', node = 2, velocity = 5, element = None\<rparr>]"
  "player (snd (create_orb (Tuple3 x y z) (init_editor :: 'cb editor))) = (player (init_editor :: 'cb editor))\<lparr>mana := 90\<rparr>"
  "vecs (snd (create_orb (Tuple3 x y z) (init_editor :: 'cb editor))) 5 = Vec3 x y z"
  "getPos (snd (create_orb (Tuple3 x y z) (init_editor :: 'cb editor))) 2 = Vec3 0 2 1.5"
  "event_handlers (snd (create_orb (Tuple3 x y z) (init_editor :: 'cb editor))) = Map.empty"
  "stdout (snd (create_orb (Tuple3 x y z) (init_editor :: 'cb editor))) = []"
  by (simp_all add: create_orb_def loadModel_def setScale_def setPos_def getPos_def new_vec_def
        Let_def init_editor_def update_stats_def setup_scene_def split: prod.splits)

section \<open>Resource spending\<close>

text \<open>
  C1. Each spending operation below its threshold (mana under 10, fire under 5, water
  under 5) raises the error and returns the state it was given, every field of it; at
  or above the threshold it returns normally with the balance lowered by exactly the
  cost and the two other balances as they were.
\<close>

theorem spend_contract:
  "(if mana (player s) < 10
    then create_orb f s = (Inl (RuntimeError ''Not enough mana to create orb''), s)
    else (\<exists>r. fst (create_orb f s) = Inr r)
       \<and> mana (player (snd (create_orb f s))) = mana (player s) - 10
       \<and> fire (player (snd (create_orb f s))) = fire (player s)
       \<and> water (player (snd (create_orb f s))) = water (player s))
 \<and> (if fire (player s) < 5
    then use_fire i s = (Inl (RuntimeError ''Not enough fire energy''), s)
    else fst (use_fire i s) = Inr ()
       \<and> fire (player (snd (use_fire i s))) = fire (player s) - 5
       \<and> mana (player (snd (use_fire i s))) = mana (player s)
       \<and> water (player (snd (use_fire i s))) = water (player s))
 \<and> (if water (player s) < 5
    then use_water i s = (Inl (RuntimeError ''Not enough water energy''), s)
    else fst (use_water i s) = Inr ()
       \<and> water (player (snd (use_water i s))) = water (player s) - 5
       \<and> mana (player (snd (use_water i s))) = mana (player s)
       \<and> fire (player (snd (use_water i s))) = fire (player s))"
  by (cases f)
     (simp_all add: create_orb_def use_fire_def use_water_def loadModel_def setScale_def
        setPos_def getPos_def new_vec_def setColor_def Let_def split: prod.splits)

theorem spend_contract_witness:
  "mana (player (init_editor\<lparr>player := (player (init_editor :: nat editor))\<lparr>mana := 5\<rparr>\<rparr> :: nat editor)) = 5
 \<and> create_orb (Tuple3 0 0 1) (init_editor\<lparr>player := (player (init_editor :: nat editor))\<lparr>mana := 5\<rparr>\<rparr> :: nat editor)
     = (Inl (RuntimeError ''Not enough mana to create orb''),
        init_editor\<lparr>player := (player (init_editor :: nat editor))\<lparr>mana := 5\<rparr>\<rparr>)
 \<and> fst (use_fire 0 (init_editor :: nat editor)) = Inr ()
 \<and> fire (player (snd (use_fire 0 (init_editor :: nat editor)))) = 45
 \<and> fst (use_water 0 (init_editor :: nat editor)) = Inr ()
 \<and> water (player (snd (use_water 0 (init_editor :: nat editor)))) = 45"
  using spend_contract [of "init_editor\<lparr>player := (player (init_editor :: nat editor))\<lparr>mana := 5\<rparr>\<rparr> :: nat editor"
          "Tuple3 0 0 1" 0]
        spend_contract [of "init_editor :: nat editor" "Tuple3 0 0 1" 0]
  by simp

section \<open>The loop body, step by step\<close>


lemma advance_orb_pos:
  "getPos (advance_orb dt i s) (node (orbs s ! i)) =
     vec_add (getPos s (node (orbs s ! i))) (vec_scale (vecs s (velocity (orbs s ! i))) dt)"
  by (simp add: advance_orb_def setPos_def getPos_def Let_def)

lemma advance_orb_vel:
  "vecs (advance_orb dt i s) (velocity (orbs s ! i)) = vec_scale (vecs s (velocity (orbs s ! i))) 0.98"
  by (simp add: advance_orb_def setPos_def getPos_def Let_def)

lemma advance_orb_frame [simp]:
  "orbs (advance_orb dt i s) = orbs s"
  "player (advance_orb dt i s) = player s"
  "event_handlers (advance_orb dt i s) = event_handlers s"
  "ground (advance_orb dt i s) = ground s"
  "stdout (advance_orb dt i s) = stdout s"
  by (simp_all add: advance_orb_def setPos_def Let_def)

lemma setZ_frame [simp]:
  "orbs (setZ n h s) = orbs s"
  "player (setZ n h s) = player s"
  "event_handlers (setZ n h s) = event_handlers s"
  "vecs (setZ n h s) = vecs s"
  "ground (setZ n h s) = ground s"
  by (simp_all add: setZ_def setPos_def)

lemma getZ_setZ [simp]: "getZ (setZ n h s) n = h"
  by (cases "pos (nodes s n)") (simp add: getZ_def setZ_def setPos_def getPos_def)


lemma stop_orb_frame [simp]:
  "player (stop_orb i s) = player s"
  "event_handlers (stop_orb i s) = event_handlers s"
  "nodes (stop_orb i s) = nodes s"
  "stdout (stop_orb i s) = stdout s"
  "length (orbs (stop_orb i s)) = length (orbs s)"
  by (simp_all add: stop_orb_def new_vec_def)

lemma step_orb_flying:
  "0 < getZ (advance_orb dt i s) (node (orbs s ! i)) \<Longrightarrow> step_orb call dt i s = Some (Inr (), advance_orb dt i s)"
  by (simp add: step_orb_def Let_def)

lemma step_orb_landing:
  "getZ (advance_orb dt i s) (node (orbs s ! i)) \<le> 0 \<Longrightarrow>
   step_orb call dt i s =
     (case trigger_event call ''impact'' [OrbRef i, GroundRef] (setZ (node (orbs s ! i)) 0 (advance_orb dt i s)) of
        None \<Rightarrow> None
      | Some (Inl e, s4) \<Rightarrow> Some (Inl e, s4)
      | Some (Inr u, s4) \<Rightarrow> Some (Inr (), stop_orb i s4))"
  by (simp add: step_orb_def Let_def)


section \<open>Creating an orb\<close>

text \<open>
  C2. With at least 10 mana, \<open>create_orb\<close> returns the reference of a new orb, the one it
  appends to the list that the physics loop walks; it takes exactly 10 mana, puts the
  orb at the player's position plus \<open>(0, 2, 1)\<close> and gives it the force as velocity
  (the very object, when the force is a \<^verbatim>\<open>Vec3\<close>). From 10 mana the call leaves 0, and
  every further call fails with the error and changes nothing.
\<close>

theorem create_orb_spec:
  assumes "10 \<le> mana (player s)" and "node (player s) < next_node s" and "valid_force s f"
  shows "\<exists>s' new_orb.
           create_orb f s = (Inr (length (orbs s)), s')
         \<and> mana (player s') = mana (player s) - 10
         \<and> orbs s' = orbs s @ [new_orb]
         \<and> getPos s' (node new_orb) = vec_add (getPos s (node (player s))) (Vec3 0 2 1)
         \<and> vecs s' (velocity new_orb) = force_vec s f
         \<and> (\<forall>r. f = Vec3Obj r \<longrightarrow> velocity new_orb = r)
         \<and> element new_orb = None
         \<and> (mana (player s) = 10 \<longrightarrow>
              mana (player s') = 0
            \<and> (\<forall>g. create_orb g s' = (Inl (RuntimeError ''Not enough mana to create orb''), s')))"
  using assms
  by (cases f)
     (auto simp add: create_orb_def loadModel_def setScale_def force_vec_def valid_force_def
        setPos_def getPos_def new_vec_def Let_def split: prod.splits)

theorem create_orb_spec_witness:
  "10 \<le> mana (player (init_editor\<lparr>player := (player (init_editor :: nat editor))\<lparr>mana := 10\<rparr>\<rparr> :: nat editor))
 \<and> node (player (init_editor\<lparr>player := (player (init_editor :: nat editor))\<lparr>mana := 10\<rparr>\<rparr> :: nat editor))
      < next_node (init_editor\<lparr>player := (player (init_editor :: nat editor))\<lparr>mana := 10\<rparr>\<rparr> :: nat editor)
 \<and> valid_force (init_editor\<lparr>player := (player (init_editor :: nat editor))\<lparr>mana := 10\<rparr>\<rparr> :: nat editor) (Tuple3 10 0 15)
 \<and> (\<exists>s' new_orb.
        create_orb (Tuple3 10 0 15) (init_editor\<lparr>player := (player (init_editor :: nat editor))\<lparr>mana := 10\<rparr>\<rparr> :: nat editor)
          = (Inr 0, s')
      \<and> mana (player s') = 0
      \<and> orbs s' = [new_orb]
      \<and> getPos s' (node new_orb) = Vec3 0 2 1.5
      \<and> vecs s' (velocity new_orb) = Vec3 10 0 15
      \<and> create_orb (Tuple3 0 0 1) s' = (Inl (RuntimeError ''Not enough mana to create orb''), s'))"
proof -
  let ?s = "init_editor\<lparr>player := (player (init_editor :: nat editor))\<lparr>mana := 10\<rparr>\<rparr> :: nat editor"
  have h1: "10 \<le> mana (player ?s)" by simp
  have h2: "node (player ?s) < next_node ?s" by simp
  have h3: "valid_force ?s (Tuple3 10 0 15)" by (simp add: valid_force_def)
  from create_orb_spec [OF h1 h2 h3]
  obtain s' new_orb where
    "create_orb (Tuple3 10 0 15) ?s = (Inr (length (orbs ?s)), s')"
    "mana (player s') = mana (player ?s) - 10"
    "orbs s' = orbs ?s @ [new_orb]"
    "getPos s' (node new_orb) = vec_add (getPos ?s (node (player ?s))) (Vec3 0 2 1)"
    "vecs s' (velocity new_orb) = force_vec ?s (Tuple3 10 0 15)"
    "mana (player ?s) = 10 \<longrightarrow> mana (player s') = 0
       \<and> (\<forall>g. create_orb g s' = (Inl (RuntimeError ''Not enough mana to create orb''), s'))"
    by blast
  then have "create_orb (Tuple3 10 0 15) ?s = (Inr 0, s')
      \<and> mana (player s') = 0
      \<and> orbs s' = [new_orb]
      \<and> getPos s' (node new_orb) = Vec3 0 2 1.5
      \<and> vecs s' (velocity new_orb) = Vec3 10 0 15
      \<and> create_orb (Tuple3 0 0 1) s' = (Inl (RuntimeError ''Not enough mana to create orb''), s')"
    by (simp add: force_vec_def getPos_def init_editor_def update_stats_def setup_scene_def)
  then show ?thesis using h1 h2 h3 by blast
qed

section \<open>Elements\<close>

text \<open>
  C3. With at least 5 fire, \<open>use_fire\<close> on an orb sets its element to fire and takes
  exactly 5 fire, leaving water alone; \<open>use_water\<close> afterwards, with at least 5 water,
  overwrites the element with water and takes exactly 5 water, the fire balance staying
  where the first call left it.
\<close>

theorem use_fire_then_water:
  assumes "i < length (orbs s)" and "5 \<le> fire (player s)"
  shows "fst (use_fire i s) = Inr ()
       \<and> element (orbs (snd (use_fire i s)) ! i) = Some ''fire''
       \<and> fire (player (snd (use_fire i s))) = fire (player s) - 5
       \<and> water (player (snd (use_fire i s))) = water (player s)
       \<and> (5 \<le> water (player s) \<longrightarrow>
            fst (use_water i (snd (use_fire i s))) = Inr ()
          \<and> element (orbs (snd (use_water i (snd (use_fire i s)))) ! i) = Some ''water''
          \<and> water (player (snd (use_water i (snd (use_fire i s))))) = water (player s) - 5
          \<and> fire (player (snd (use_water i (snd (use_fire i s))))) = fire (player s) - 5)"
  using assms
  by (simp add: use_fire_def use_water_def setColor_def Let_def)


theorem use_fire_then_water_witness:
  "0 < length (orbs (snd (create_orb (Tuple3 10 0 15) (init_editor :: nat editor))))
 \<and> 5 \<le> fire (player (snd (create_orb (Tuple3 10 0 15) (init_editor :: nat editor))))
 \<and> 5 \<le> water (player (snd (create_orb (Tuple3 10 0 15) (init_editor :: nat editor))))
 \<and> element (orbs (snd (use_fire 0 (snd (create_orb (Tuple3 10 0 15) (init_editor :: nat editor))))) ! 0) = Some ''fire''
 \<and> fire (player (snd (use_fire 0 (snd (create_orb (Tuple3 10 0 15) (init_editor :: nat editor)))))) = 45
 \<and> element (orbs (snd (use_water 0 (snd (use_fire 0 (snd (create_orb (Tuple3 10 0 15) (init_editor :: nat editor))))))) ! 0)
      = Some ''water''
 \<and> water (player (snd (use_water 0 (snd (use_fire 0 (snd (create_orb (Tuple3 10 0 15) (init_editor :: nat editor)))))))) = 45
 \<and> fire (player (snd (use_water 0 (snd (use_fire 0 (snd (create_orb (Tuple3 10 0 15) (init_editor :: nat editor)))))))) = 45"
proof -
  let ?s = "snd (create_orb (Tuple3 10 0 15) (init_editor :: nat editor))"
  have h1: "0 < length (orbs ?s)" by (simp add: first_orb)
  have h2: "5 \<le> fire (player ?s)" by (simp add: first_orb)
  have h3: "5 \<le> water (player ?s)" by (simp add: first_orb)
  show ?thesis
    using use_fire_then_water [OF h1 h2] h1 h2 h3 by (simp add: first_orb)
qed

section \<open>Orbs in one tick\<close>

lemma trigger_from_unfold:
  "k < length (handlers_of s ev) \<Longrightarrow>
   trigger_from call ev args k s =
     (case call (handlers_of s ev ! k) args s of
        None \<Rightarrow> None
      | Some (Inr u, s') \<Rightarrow> trigger_from call ev args (Suc k) s'
      | Some (Inl e, s') \<Rightarrow>
          if is_Exception e
          then trigger_from call ev args (Suc k) (print (''Error in event handler: '' @ str_exc e) s')
          else Some (Inl e, s'))"
  by (subst trigger_from.simps) simp

lemma physics_from_unfold:
  "i < length (orbs s) \<Longrightarrow>
   physics_from call dt i s =
     (case step_orb call dt i s of
        None \<Rightarrow> None
      | Some (Inl e, s') \<Rightarrow> Some (Inl e, s')
      | Some (Inr u, s') \<Rightarrow> physics_from call dt (Suc i) s')"
  by (subst physics_from.simps) simp

lemma physics_from_end:
  "length (orbs s) \<le> i \<Longrightarrow> physics_from call dt i s = Some (Inr (), s)"
  by (subst physics_from.simps) simp

lemma advance_orb_other_pos:
  "node (orbs s ! i) \<noteq> n \<Longrightarrow> getPos (advance_orb dt i s) n = getPos s n"
  by (simp add: advance_orb_def setPos_def getPos_def Let_def)

lemma advance_orb_other_vel:
  "velocity (orbs s ! i) \<noteq> r \<Longrightarrow> vecs (advance_orb dt i s) r = vecs s r"
  by (simp add: advance_orb_def setPos_def getPos_def Let_def)

text \<open>The state of the tick when the orbs before position \<open>j\<close> have been advanced.\<close>

lemma physics_from_flying:
  assumes dn: "distinct (map node (orbs s))" and dv: "distinct (map velocity (orbs s))"
    and fly: "\<forall>i < length (orbs s).
                0 < getZ_vec (vec_add (getPos s (node (orbs s ! i))) (vec_scale (vecs s (velocity (orbs s ! i))) dt))"
    and j: "j \<le> length (orbs s)"
    and same: "orbs t = orbs s"
    and adv: "\<forall>i < j. getPos t (node (orbs s ! i)) =
                          vec_add (getPos s (node (orbs s ! i))) (vec_scale (vecs s (velocity (orbs s ! i))) dt)
                      \<and> vecs t (velocity (orbs s ! i)) = vec_scale (vecs s (velocity (orbs s ! i))) 0.98"
    and todo: "\<forall>i. j \<le> i \<and> i < length (orbs s) \<longrightarrow>
                  getPos t (node (orbs s ! i)) = getPos s (node (orbs s ! i))
                \<and> vecs t (velocity (orbs s ! i)) = vecs s (velocity (orbs s ! i))"
  shows "\<exists>s'. physics_from call dt j t = Some (Inr (), s') \<and> orbs s' = orbs s
           \<and> (\<forall>i < length (orbs s).
                 getPos s' (node (orbs s ! i)) =
                   vec_add (getPos s (node (orbs s ! i))) (vec_scale (vecs s (velocity (orbs s ! i))) dt)
               \<and> vecs s' (velocity (orbs s ! i)) = vec_scale (vecs s (velocity (orbs s ! i))) 0.98)"
  using j same adv todo
proof (induction "length (orbs s) - j" arbitrary: j t)
  case 0
  then have "j = length (orbs s)" by simp
  with 0 show ?case by (simp add: physics_from_end)
next
  case (Suc k)
  let ?n = "length (orbs s)"
  let ?t' = "advance_orb dt j t"
  from Suc.hyps(2) have jn: "j < ?n" by simp
  have cur: "getPos t (node (orbs s ! j)) = getPos s (node (orbs s ! j))"
            "vecs t (velocity (orbs s ! j)) = vecs s (velocity (orbs s ! j))"
    using Suc.prems(4) jn by auto
  have pos': "getPos ?t' (node (orbs s ! j)) =
                vec_add (getPos s (node (orbs s ! j))) (vec_scale (vecs s (velocity (orbs s ! j))) dt)"
    using advance_orb_pos [of dt j t] by (simp add: Suc.prems(2) cur)
  have vel': "vecs ?t' (velocity (orbs s ! j)) = vec_scale (vecs s (velocity (orbs s ! j))) 0.98"
    using advance_orb_vel [of dt j t] by (simp add: Suc.prems(2) cur)
  have "0 < getZ ?t' (node (orbs t ! j))"
    using fly jn by (simp add: getZ_def pos' Suc.prems(2))
  then have step: "step_orb call dt j t = Some (Inr (), ?t')" by (rule step_orb_flying)
  have unfold: "physics_from call dt j t = physics_from call dt (Suc j) ?t'"
    using jn by (simp add: physics_from_unfold Suc.prems(2) step)
  have other: "getPos ?t' (node (orbs s ! i)) = getPos t (node (orbs s ! i))
             \<and> vecs ?t' (velocity (orbs s ! i)) = vecs t (velocity (orbs s ! i))"
    if "i < ?n" "i \<noteq> j" for i
  proof -
    have "node (orbs s ! j) \<noteq> node (orbs s ! i)"
      using dn that jn by (simp add: distinct_conv_nth)
    moreover have "velocity (orbs s ! j) \<noteq> velocity (orbs s ! i)"
      using dv that jn by (simp add: distinct_conv_nth)
    ultimately show ?thesis
      by (simp add: advance_orb_other_pos advance_orb_other_vel Suc.prems(2))
  qed
  have "\<exists>s'. physics_from call dt (Suc j) ?t' = Some (Inr (), s') \<and> orbs s' = orbs s
           \<and> (\<forall>i < ?n.
                 getPos s' (node (orbs s ! i)) =
                   vec_add (getPos s (node (orbs s ! i))) (vec_scale (vecs s (velocity (orbs s ! i))) dt)
               \<and> vecs s' (velocity (orbs s ! i)) = vec_scale (vecs s (velocity (orbs s ! i))) 0.98)"
  proof (rule Suc.hyps(1))
    show "k = ?n - Suc j" using Suc.hyps(2) by simp
    show "Suc j \<le> ?n" using jn by simp
    show "orbs ?t' = orbs s" by (simp add: Suc.prems(2))
    show "\<forall>i < Suc j. getPos ?t' (node (orbs s ! i)) =
                          vec_add (getPos s (node (orbs s ! i))) (vec_scale (vecs s (velocity (orbs s ! i))) dt)
                      \<and> vecs ?t' (velocity (orbs s ! i)) = vec_scale (vecs s (velocity (orbs s ! i))) 0.98"
    proof (intro allI impI)
      fix i assume "i < Suc j"
      show "getPos ?t' (node (orbs s ! i)) =
                          vec_add (getPos s (node (orbs s ! i))) (vec_scale (vecs s (velocity (orbs s ! i))) dt)
                      \<and> vecs ?t' (velocity (orbs s ! i)) = vec_scale (vecs s (velocity (orbs s ! i))) 0.98"
      proof (cases "i = j")
        case True
        then show ?thesis using pos' vel' by simp
      next
        case False
        with \<open>i < Suc j\<close> have "i < j" by simp
        then show ?thesis using other [of i] False jn Suc.prems(3) by simp
      qed
    qed
    show "\<forall>i. Suc j \<le> i \<and> i < ?n \<longrightarrow>
                  getPos ?t' (node (orbs s ! i)) = getPos s (node (orbs s ! i))
                \<and> vecs ?t' (velocity (orbs s ! i)) = vecs s (velocity (orbs s ! i))"
      using other Suc.prems(4) by auto
  qed
  then show ?case by (simp add: unfold)
qed

lemma update_physics_flying:
  assumes "distinct (map node (orbs s))" and "distinct (map velocity (orbs s))"
    and "\<forall>i < length (orbs s).
                0 < getZ_vec (vec_add (getPos s (node (orbs s ! i))) (vec_scale (vecs s (velocity (orbs s ! i))) dt))"
  shows "\<exists>s'. update_physics call dt s = Some (Inr (), s') \<and> orbs s' = orbs s
           \<and> (\<forall>i < length (orbs s).
                 getPos s' (node (orbs s ! i)) =
                   vec_add (getPos s (node (orbs s ! i))) (vec_scale (vecs s (velocity (orbs s ! i))) dt)
               \<and> vecs s' (velocity (orbs s ! i)) = vec_scale (vecs s (velocity (orbs s ! i))) 0.98)"
  unfolding update_physics_def
  by (rule physics_from_flying [OF assms]) simp_all

text \<open>
  C4. The update of one orb in a tick: the position becomes the old position plus the
  old (not yet damped) velocity times \<open>dt\<close>, and then the velocity becomes 0.98 times
  the old velocity, whatever \<open>dt\<close> is. When the new height is above 0 that is all the
  loop body does; otherwise the collision handling follows on the state so reached. For
  a whole tick: when the orbs have nodes and velocity objects of their own and none
  reaches the ground, \<open>update_physics\<close> returns with every orb moved by its old velocity
  times \<open>dt\<close> and every velocity scaled by 0.98.
\<close>

theorem physics_update_order:
  "getPos (advance_orb dt i s) (node (orbs s ! i)) =
     vec_add (getPos s (node (orbs s ! i))) (vec_scale (vecs s (velocity (orbs s ! i))) dt)
 \<and> vecs (advance_orb dt i s) (velocity (orbs s ! i)) = vec_scale (vecs s (velocity (orbs s ! i))) 0.98
 \<and> (if 0 < getZ (advance_orb dt i s) (node (orbs s ! i))
    then step_orb call dt i s = Some (Inr (), advance_orb dt i s)
    else step_orb call dt i s =
           (case trigger_event call ''impact'' [OrbRef i, GroundRef]
                   (setZ (node (orbs s ! i)) 0 (advance_orb dt i s)) of
              None \<Rightarrow> None
            | Some (Inl e, s4) \<Rightarrow> Some (Inl e, s4)
            | Some (Inr u, s4) \<Rightarrow> Some (Inr (), stop_orb i s4)))
 \<and> (distinct (map node (orbs s)) \<and> distinct (map velocity (orbs s))
    \<and> (\<forall>k < length (orbs s).
          0 < getZ_vec (vec_add (getPos s (node (orbs s ! k))) (vec_scale (vecs s (velocity (orbs s ! k))) dt)))
    \<longrightarrow> (\<exists>s'. update_physics call dt s = Some (Inr (), s') \<and> orbs s' = orbs s
           \<and> (\<forall>k < length (orbs s).
                 getPos s' (node (orbs s ! k)) =
                   vec_add (getPos s (node (orbs s ! k))) (vec_scale (vecs s (velocity (orbs s ! k))) dt)
               \<and> vecs s' (velocity (orbs s ! k)) = vec_scale (vecs s (velocity (orbs s ! k))) 0.98)))"
  using update_physics_flying [of s dt call]
  by (simp add: advance_orb_pos advance_orb_vel step_orb_flying step_orb_landing)

lemma two_orbs:
  "orbs (snd (create_orb (Tuple3 a b c) (snd (create_orb (Tuple3 x y z) (init_editor :: 'cb editor))))) =
     [\<lparr>name = ''orb'', node = 2, velocity = 5, element = None\<rparr>,
      \<lparr>name = ''orb'', node = 3, velocity = 7, element = None\<rparr>]"
  "vecs (snd (create_orb (Tuple3 a b c) (snd (create_orb (Tuple3 x y z) (init_editor :: 'cb editor))))) 5 = Vec3 x y z"
  "vecs (snd (create_orb (Tuple3 a b c) (snd (create_orb (Tuple3 x y z) (init_editor :: 'cb editor))))) 7 = Vec3 a b c"
  "getPos (snd (create_orb (Tuple3 a b c) (snd (create_orb (Tuple3 x y z) (init_editor :: 'cb editor))))) 2 = Vec3 0 2 1.5"
  "getPos (snd (create_orb (Tuple3 a b c) (snd (create_orb (Tuple3 x y z) (init_editor :: 'cb editor))))) 3 = Vec3 0 2 1.5"
  by (simp_all add: create_orb_def loadModel_def setScale_def setPos_def getPos_def new_vec_def
        Let_def init_editor_def update_stats_def setup_scene_def split: prod.splits)

theorem physics_update_order_witness:
  "getPos (advance_orb 1 0 (snd (create_orb (Tuple3 0 0 (-5)) (init_editor :: nat editor)))) 2 = Vec3 0 2 (-3.5)
 \<and> vecs (advance_orb 1 0 (snd (create_orb (Tuple3 0 0 (-5)) (init_editor :: nat editor)))) 5 = Vec3 0 0 (-4.9)
 \<and> distinct (map node (orbs (snd (create_orb (Tuple3 1 0 0) (snd (create_orb (Tuple3 0 0 (-5)) (init_editor :: nat editor)))))))
 \<and> distinct (map velocity (orbs (snd (create_orb (Tuple3 1 0 0) (snd (create_orb (Tuple3 0 0 (-5)) (init_editor :: nat editor)))))))
 \<and> (\<exists>s'. update_physics (\<lambda>cb args t. None) (1/10)
             (snd (create_orb (Tuple3 1 0 0) (snd (create_orb (Tuple3 0 0 (-5)) (init_editor :: nat editor)))))
             = Some (Inr (), s')
         \<and> getPos s' 2 = Vec3 0 2 1 \<and> vecs s' 5 = Vec3 0 0 (-4.9)
         \<and> getPos s' 3 = Vec3 (1/10) 2 1.5 \<and> vecs s' 7 = Vec3 0.98 0 0)"
proof -
  let ?s1 = "snd (create_orb (Tuple3 0 0 (-5)) (init_editor :: nat editor))"
  let ?s = "snd (create_orb (Tuple3 1 0 0) ?s1)"
  let ?call = "(\<lambda>cb args t. None) :: nat calling"
  note a = physics_update_order [of 1 0 ?s1 ?call]
  note b = physics_update_order [of "1/10" 0 ?s ?call]
  have d: "distinct (map node (orbs ?s))" "distinct (map velocity (orbs ?s))"
    by (simp_all add: two_orbs)
  have fly: "\<forall>k < length (orbs ?s).
          0 < getZ_vec (vec_add (getPos ?s (node (orbs ?s ! k))) (vec_scale (vecs ?s (velocity (orbs ?s ! k))) (1/10)))"
    by (simp add: two_orbs less_Suc_eq)
  from b d fly obtain s' where s': "update_physics ?call (1/10) ?s = Some (Inr (), s')"
    and each: "\<forall>k < length (orbs ?s).
                 getPos s' (node (orbs ?s ! k)) =
                   vec_add (getPos ?s (node (orbs ?s ! k))) (vec_scale (vecs ?s (velocity (orbs ?s ! k))) (1/10))
               \<and> vecs s' (velocity (orbs ?s ! k)) = vec_scale (vecs ?s (velocity (orbs ?s ! k))) 0.98"
    by blast
  from each [rule_format, of 0] each [rule_format, of 1]
  have "getPos s' 2 = Vec3 0 2 1" "vecs s' 5 = Vec3 0 0 (-4.9)"
       "getPos s' 3 = Vec3 (1/10) 2 1.5" "vecs s' 7 = Vec3 0.98 0 0"
    by (simp_all add: two_orbs)
  moreover have "getPos (advance_orb 1 0 ?s1) 2 = Vec3 0 2 (-3.5)" "vecs (advance_orb 1 0 ?s1) 5 = Vec3 0 0 (-4.9)"
    using a by (simp_all add: first_orb)
  ultimately show ?thesis using d s' by blast
qed

section \<open>Dispatch\<close>

lemma handlers_of_print [simp]: "handlers_of (print l s) ev = handlers_of s ev"
  by (simp add: handlers_of_def print_def)

lemma handlers_of_handled:
  "fails_or_returns call ev args cb \<Longrightarrow> handlers_of (handled call args s cb) ev = handlers_of s ev"
  unfolding fails_or_returns_def handled_def
  by (erule allE [of _ s]) (auto split: option.splits sum.splits prod.splits)

lemma trigger_from_end:
  "length (handlers_of s ev) \<le> k \<Longrightarrow> trigger_from call ev args k s = Some (Inr (), s)"
  by (subst trigger_from.simps) simp

lemma trigger_from_step:
  assumes "k < length (handlers_of s ev)" and "fails_or_returns call ev args (handlers_of s ev ! k)"
  shows "trigger_from call ev args k s =
           trigger_from call ev args (Suc k) (handled call args s (handlers_of s ev ! k))"
  using assms(2) unfolding fails_or_returns_def handled_def
  apply -
  apply (erule allE [of _ s])
  apply (subst trigger_from.simps)
  using assms(1)
  apply (auto split: option.splits sum.splits prod.splits)
  done

lemma handlers_of_foldl:
  "\<forall>cb \<in> set cbs. fails_or_returns call ev args cb \<Longrightarrow>
   handlers_of (foldl (handled call args) s cbs) ev = handlers_of s ev"
  by (induction cbs arbitrary: s) (simp_all add: handlers_of_handled)

lemma trigger_from_prefix:
  assumes "\<forall>cb \<in> set (handlers_of s ev). fails_or_returns call ev args cb"
    and "k \<le> length (handlers_of s ev)"
  shows "trigger_from call ev args 0 s =
           trigger_from call ev args k (foldl (handled call args) s (take k (handlers_of s ev)))"
  using assms(2)
proof (induction k)
  case 0
  then show ?case by simp
next
  case (Suc k)
  let ?cbs = "handlers_of s ev"
  let ?t = "foldl (handled call args) s (take k ?cbs)"
  from Suc.prems have k: "k < length ?cbs" by simp
  have "\<forall>cb \<in> set (take k ?cbs). fails_or_returns call ev args cb"
    using assms(1) by (meson in_set_takeD)
  then have same: "handlers_of ?t ev = ?cbs" by (rule handlers_of_foldl)
  have wb: "fails_or_returns call ev args (handlers_of ?t ev ! k)"
    using assms(1) k by (simp add: same)
  have "trigger_from call ev args 0 s = trigger_from call ev args k ?t"
    using Suc.IH k by simp
  also have "\<dots> = trigger_from call ev args (Suc k) (handled call args ?t (handlers_of ?t ev ! k))"
    using k by (intro trigger_from_step wb) (simp add: same)
  also have "handled call args ?t (handlers_of ?t ev ! k) = foldl (handled call args) s (take (Suc k) ?cbs)"
    using k by (simp add: same take_Suc_conv_app_nth)
  finally show ?case .
qed

lemma trigger_event_fold:
  assumes "\<forall>cb \<in> set (handlers_of s ev). fails_or_returns call ev args cb"
  shows "trigger_event call ev args s = Some (Inr (), foldl (handled call args) s (handlers_of s ev))"
proof -
  let ?cbs = "handlers_of s ev"
  let ?t = "foldl (handled call args) s ?cbs"
  have "trigger_event call ev args s = trigger_from call ev args (length ?cbs) ?t"
    unfolding trigger_event_def using trigger_from_prefix [OF assms, of "length ?cbs"] by simp
  also have "\<dots> = Some (Inr (), ?t)"
    by (rule trigger_from_end) (simp add: handlers_of_foldl [OF assms])
  finally show ?thesis .
qed

lemma handlers_of_on_event:
  "handlers_of (on_event ev cb s) ev' = (if ev' = ev then handlers_of s ev @ [cb] else handlers_of s ev')"
  by (simp add: on_event_def handlers_of_def)

lemma handlers_of_register_all:
  "handlers_of (register_all regs s) ev = handlers_of s ev @ registered_for ev regs"
  by (induction regs s rule: register_all.induct)
     (simp_all add: registered_for_def handlers_of_on_event)

text \<open>
  C6. After any sequence of registrations the list of an event is what it was, followed
  by the callbacks registered for that event in the order of the calls; so registering
  \<open>a\<close> and then \<open>b\<close> puts \<open>a\<close> before \<open>b\<close>. One step of the dispatch, at any
  position \<open>k\<close> of the list: a callback that returns hands its state to position
  \<open>k + 1\<close>; one that raises an exception of a class under \<^verbatim>\<open>Exception\<close> has the report
  printed and the dispatch goes on at \<open>k + 1\<close>; one that raises any other exception
  (\<^verbatim>\<open>SystemExit\<close>, \<^verbatim>\<open>KeyboardInterrupt\<close>) ends the dispatch with that exception, the later
  callbacks not called. When every callback of the list returns or raises under
  \<^verbatim>\<open>Exception\<close>, and registers nothing for the event being dispatched, the dispatch
  returns normally with the state obtained by running the callbacks one after the other
  in list order, each on the state left by the one before: \<open>a\<close> before \<open>b\<close>.
\<close>

theorem dispatch_in_registration_order:
  "handlers_of (register_all regs s) ev = handlers_of s ev @ registered_for ev regs
 \<and> handlers_of (on_event ev b (on_event ev a s)) ev = handlers_of s ev @ [a, b]
 \<and> (k < length (handlers_of s ev) \<and> call (handlers_of s ev ! k) args s = Some (Inl e, s') \<and> is_Exception e
      \<longrightarrow> trigger_from call ev args k s =
            trigger_from call ev args (Suc k) (print (''Error in event handler: '' @ str_exc e) s'))
 \<and> (k < length (handlers_of s ev) \<and> call (handlers_of s ev ! k) args s = Some (Inr (), s')
      \<longrightarrow> trigger_from call ev args k s = trigger_from call ev args (Suc k) s')
 \<and> (k < length (handlers_of s ev) \<and> call (handlers_of s ev ! k) args s = Some (Inl e, s') \<and> \<not> is_Exception e
      \<longrightarrow> trigger_from call ev args k s = Some (Inl e, s'))
 \<and> ((\<forall>cb \<in> set (handlers_of s ev). fails_or_returns call ev args cb) \<longrightarrow>
      trigger_event call ev args s = Some (Inr (), foldl (handled call args) s (handlers_of s ev)))
 \<and> ((\<forall>cb \<in> set (handlers_of s ev @ [a, b]). fails_or_returns call ev args cb) \<longrightarrow>
      trigger_event call ev args (on_event ev b (on_event ev a s)) =
        Some (Inr (), handled call args
                        (handled call args
                           (foldl (handled call args) (on_event ev b (on_event ev a s)) (handlers_of s ev)) a) b))"
proof -
  let ?s = "on_event ev b (on_event ev a s)"
  have reg: "handlers_of ?s ev = handlers_of s ev @ [a, b]"
    by (simp add: handlers_of_on_event)
  have "trigger_event call ev args ?s =
          Some (Inr (), handled call args
                        (handled call args (foldl (handled call args) ?s (handlers_of s ev)) a) b)"
    if "\<forall>cb \<in> set (handlers_of s ev @ [a, b]). fails_or_returns call ev args cb"
    using trigger_event_fold [of ?s ev call args] that unfolding reg by simp
  moreover have "trigger_event call ev args s = Some (Inr (), foldl (handled call args) s (handlers_of s ev))"
    if "\<forall>cb \<in> set (handlers_of s ev). fails_or_returns call ev args cb"
    using that by (rule trigger_event_fold)
  moreover have "trigger_from call ev args k s =
            trigger_from call ev args (Suc k) (print (''Error in event handler: '' @ str_exc e) s')"
    if "k < length (handlers_of s ev)" "call (handlers_of s ev ! k) args s = Some (Inl e, s')" "is_Exception e"
    using that by (simp add: trigger_from_unfold)
  moreover have "trigger_from call ev args k s = trigger_from call ev args (Suc k) s'"
    if "k < length (handlers_of s ev)" "call (handlers_of s ev ! k) args s = Some (Inr (), s')"
    using that by (simp add: trigger_from_unfold)
  moreover have "trigger_from call ev args k s = Some (Inl e, s')"
    if "k < length (handlers_of s ev)" "call (handlers_of s ev ! k) args s = Some (Inl e, s')" "\<not> is_Exception e"
    using that by (simp add: trigger_from_unfold)
  ultimately show ?thesis
    using reg handlers_of_register_all [of regs s ev] by blast
qed

theorem dispatch_in_registration_order_witness:
  "handlers_of (init_editor :: nat editor) ''impact'' = []
 \<and> handlers_of (register_all [(''impact'', 0), (''other'', 7), (''impact'', 1)] (init_editor :: nat editor)) ''impact''
     = [0, 1]
 \<and> fails_or_returns
      (\<lambda>cb args t. if cb = 0 then Some (Inl (RuntimeError ''first''), t)
                    else Some (Inl (OtherException ''ValueError'' ''second''), t))
      ''impact'' [OrbRef 0, GroundRef] (0 :: nat)
 \<and> fails_or_returns
      (\<lambda>cb args t. if cb = 0 then Some (Inl (RuntimeError ''first''), t)
                    else Some (Inl (OtherException ''ValueError'' ''second''), t))
      ''impact'' [OrbRef 0, GroundRef] (1 :: nat)
 \<and> (\<exists>s'. trigger_event
            (\<lambda>cb args t. if cb = 0 then Some (Inl (RuntimeError ''first''), t)
                          else Some (Inl (OtherException ''ValueError'' ''second''), t))
            ''impact'' [OrbRef 0, GroundRef]
            (on_event ''impact'' 1 (on_event ''impact'' 0 (init_editor :: nat editor)))
          = Some (Inr (), s')
       \<and> stdout s' = [''Error in event handler: first'', ''Error in event handler: second''])
 \<and> handlers_of (on_event ''impact'' 1 (on_event ''impact'' 0 (init_editor :: nat editor))) ''impact'' ! 0 = 0
 \<and> is_Exception (RuntimeError ''first'')
 \<and> trigger_from
      (\<lambda>cb args t. if cb = 0 then Some (Inl (RuntimeError ''first''), t)
                    else Some (Inl (OtherException ''ValueError'' ''second''), t))
      ''impact'' [OrbRef 0, GroundRef] 0
      (on_event ''impact'' 1 (on_event ''impact'' 0 (init_editor :: nat editor)))
    = trigger_from
      (\<lambda>cb args t. if cb = 0 then Some (Inl (RuntimeError ''first''), t)
                    else Some (Inl (OtherException ''ValueError'' ''second''), t))
      ''impact'' [OrbRef 0, GroundRef] (Suc 0)
      (print ''Error in event handler: first''
         (on_event ''impact'' 1 (on_event ''impact'' 0 (init_editor :: nat editor))))
 \<and> trigger_from (\<lambda>cb args t. Some (Inr (), t)) ''impact'' [OrbRef 0, GroundRef] 0
      (on_event ''impact'' 1 (on_event ''impact'' 0 (init_editor :: nat editor)))
    = trigger_from (\<lambda>cb args t. Some (Inr (), t)) ''impact'' [OrbRef 0, GroundRef] (Suc 0)
      (on_event ''impact'' 1 (on_event ''impact'' 0 (init_editor :: nat editor)))
 \<and> \<not> is_Exception (NonException ''SystemExit'' [])
 \<and> trigger_from
      (\<lambda>cb args t. if cb = 0 then Some (Inl (NonException ''SystemExit'' []), t)
                    else Some (Inl (RuntimeError ''second''), t))
      ''impact'' [OrbRef 0, GroundRef] 0
      (on_event ''impact'' 1 (on_event ''impact'' 0 (init_editor :: nat editor)))
    = Some (Inl (NonException ''SystemExit'' []),
            on_event ''impact'' 1 (on_event ''impact'' 0 (init_editor :: nat editor)))"
proof -
  let ?call = "(\<lambda>cb args t. if cb = 0 then Some (Inl (RuntimeError ''first''), t)
                      else Some (Inl (OtherException ''ValueError'' ''second''), t)) :: nat calling"
  let ?args = "[OrbRef 0, GroundRef]"
  let ?s = "on_event ''impact'' 1 (on_event ''impact'' 0 (init_editor :: nat editor))"
  have e: "handlers_of (init_editor :: nat editor) ''impact'' = []"
    by (simp add: handlers_of_def)
  have h: "\<forall>cb \<in> set (handlers_of (init_editor :: nat editor) ''impact'' @ [0, 1]).
      fails_or_returns ?call ''impact'' ?args cb"
    by (simp add: fails_or_returns_def)
  note inst = dispatch_in_registration_order
      [of "[(''impact'', 0), (''other'', 7), (''impact'', 1)]" "init_editor :: nat editor" "''impact''" 1 0
          0 ?call ?args "RuntimeError ''first''" "init_editor :: nat editor"]
  from inst h
  have "trigger_event ?call ''impact'' ?args ?s =
          Some (Inr (), handled ?call ?args
                          (handled ?call ?args
                             (foldl (handled ?call ?args) ?s (handlers_of (init_editor :: nat editor) ''impact'')) 0) 1)"
    by blast
  moreover have "stdout (handled ?call ?args
                          (handled ?call ?args
                             (foldl (handled ?call ?args) ?s (handlers_of (init_editor :: nat editor) ''impact'')) 0) 1)
       = [''Error in event handler: first'', ''Error in event handler: second'']"
    by (simp add: e handled_def print_def on_event_def)
  moreover have "handlers_of (register_all [(''impact'', 0), (''other'', 7), (''impact'', 1)] (init_editor :: nat editor)) ''impact''
     = [0, 1]"
    using inst by (simp add: e registered_for_def)
  ultimately have main:
    "handlers_of (init_editor :: nat editor) ''impact'' = []
   \<and> handlers_of (register_all [(''impact'', 0), (''other'', 7), (''impact'', 1)] (init_editor :: nat editor)) ''impact''
       = [0, 1]
   \<and> fails_or_returns ?call ''impact'' ?args (0 :: nat)
   \<and> fails_or_returns ?call ''impact'' ?args (1 :: nat)
   \<and> (\<exists>s'. trigger_event ?call ''impact'' ?args ?s = Some (Inr (), s')
         \<and> stdout s' = [''Error in event handler: first'', ''Error in event handler: second''])"
    by (simp add: fails_or_returns_def e)
  let ?ok = "(\<lambda>cb args t. Some (Inr (), t)) :: nat calling"
  let ?exit = "(\<lambda>cb args t. if cb = 0 then Some (Inl (NonException ''SystemExit'' []), t)
                    else Some (Inl (RuntimeError ''second''), t)) :: nat calling"
  define s0 where "s0 = ?s"
  have hs: "handlers_of s0 ''impact'' = [0, 1]"
    by (simp add: s0_def handlers_of_on_event e)
  have k: "0 < length (handlers_of s0 ''impact'')" and h0: "handlers_of s0 ''impact'' ! 0 = 0"
    by (simp_all add: hs)
  have c1: "?call (handlers_of s0 ''impact'' ! 0) ?args s0 = Some (Inl (RuntimeError ''first''), s0)"
    and c2: "?ok (handlers_of s0 ''impact'' ! 0) ?args s0 = Some (Inr (), s0)"
    and c3: "?exit (handlers_of s0 ''impact'' ! 0) ?args s0 = Some (Inl (NonException ''SystemExit'' []), s0)"
    by (simp_all add: h0)
  have x1: "is_Exception (RuntimeError ''first'')" and x3: "\<not> is_Exception (NonException ''SystemExit'' [])"
    by simp_all
  from dispatch_in_registration_order
      [of "[]" s0 "''impact''" 1 0 0 ?call ?args "RuntimeError ''first''" s0] k c1 x1
  have n1: "trigger_from ?call ''impact'' ?args 0 s0 =
            trigger_from ?call ''impact'' ?args (Suc 0) (print (''Error in event handler: '' @ str_exc (RuntimeError ''first'')) s0)"
    by blast
  from dispatch_in_registration_order
      [of "[]" s0 "''impact''" 1 0 0 ?ok ?args "RuntimeError ''first''" s0] k c2
  have n2: "trigger_from ?ok ''impact'' ?args 0 s0 = trigger_from ?ok ''impact'' ?args (Suc 0) s0"
    by blast
  from dispatch_in_registration_order
      [of "[]" s0 "''impact''" 1 0 0 ?exit ?args "NonException ''SystemExit'' []" s0] k c3 x3
  have n3: "trigger_from ?exit ''impact'' ?args 0 s0 = Some (Inl (NonException ''SystemExit'' []), s0)"
    by blast
  have n1': "trigger_from ?call ''impact'' ?args 0 s0 =
            trigger_from ?call ''impact'' ?args (Suc 0) (print ''Error in event handler: first'' s0)"
    using n1 by simp
  have rest: "handlers_of ?s ''impact'' ! 0 = 0
     \<and> is_Exception (RuntimeError ''first'')
     \<and> trigger_from ?call ''impact'' ?args 0 ?s =
         trigger_from ?call ''impact'' ?args (Suc 0) (print ''Error in event handler: first'' ?s)
     \<and> trigger_from ?ok ''impact'' ?args 0 ?s = trigger_from ?ok ''impact'' ?args (Suc 0) ?s
     \<and> \<not> is_Exception (NonException ''SystemExit'' [])
     \<and> trigger_from ?exit ''impact'' ?args 0 ?s = Some (Inl (NonException ''SystemExit'' []), ?s)"
    using h0 x1 n1' n2 x3 n3 unfolding s0_def by (intro conjI)
  from main rest show ?thesis by (elim conjE) (intro conjI)
qed


lemma on_event_frame:
  "orbs (on_event ev cb s) = orbs s"
  "vecs (on_event ev cb s) = vecs s"
  "player (on_event ev cb s) = player s"
  "stdout (on_event ev cb s) = stdout s"
  "getPos (on_event ev cb s) n = getPos s n"
  by (simp_all add: on_event_def getPos_def)

lemma first_orb_registered:
  "orbs (on_event ev b (on_event ev a (snd (create_orb (Tuple3 x y z) (init_editor :: 'cb editor))))) =
     [\<lparr>name = ''orb'', node = 2, velocity = 5, element = None\<rparr>]"
  "vecs (on_event ev b (on_event ev a (snd (create_orb (Tuple3 x y z) (init_editor :: 'cb editor))))) 5 = Vec3 x y z"
  "getPos (on_event ev b (on_event ev a (snd (create_orb (Tuple3 x y z) (init_editor :: 'cb editor))))) 2 = Vec3 0 2 1.5"
  "handlers_of (on_event ev b (on_event ev a (snd (create_orb (Tuple3 x y z) (init_editor :: 'cb editor))))) ev = [a, b]"
  "stdout (on_event ev b (on_event ev a (snd (create_orb (Tuple3 x y z) (init_editor :: 'cb editor))))) = []"
proof -
  have "handlers_of (snd (create_orb (Tuple3 x y z) (init_editor :: 'cb editor))) ev = []"
    by (simp add: handlers_of_def first_orb)
  then show "handlers_of (on_event ev b (on_event ev a (snd (create_orb (Tuple3 x y z) (init_editor :: 'cb editor))))) ev = [a, b]"
    by (simp add: handlers_of_on_event)
qed (simp_all add: on_event_frame first_orb)

text \<open>
  A callback that raises outside \<^verbatim>\<open>Exception\<close> is not caught. Here the first of two
  registered callbacks raises \<^verbatim>\<open>SystemExit\<close>: the dispatch ends with that exception,
  nothing is printed, the second callback has not run; and when the dispatch was the one
  of a landing orb, the exception leaves \<open>update_physics\<close> as well, before the velocity
  is zeroed.
\<close>

theorem dispatch_aborted_counterexample:
  "trigger_event
     (\<lambda>cb args t. if cb = 0 then Some (Inl (NonException ''SystemExit'' []), t)
                   else Some (Inl (RuntimeError ''second''), t))
     ''impact'' [OrbRef 0, GroundRef]
     (on_event ''impact'' 1 (on_event ''impact'' 0 (init_editor :: nat editor)))
   = Some (Inl (NonException ''SystemExit'' []),
           on_event ''impact'' 1 (on_event ''impact'' 0 (init_editor :: nat editor)))
 \<and> stdout (on_event ''impact'' 1 (on_event ''impact'' 0 (init_editor :: nat editor))) = []
 \<and> (\<exists>s'. update_physics
             (\<lambda>cb args t. if cb = 0 then Some (Inl (NonException ''SystemExit'' []), t)
                           else Some (Inl (RuntimeError ''second''), t))
             1 (on_event ''impact'' 1 (on_event ''impact'' 0
                  (snd (create_orb (Tuple3 0 0 (-5)) (init_editor :: nat editor)))))
           = Some (Inl (NonException ''SystemExit'' []), s')
        \<and> stdout s' = []
        \<and> vecs s' (velocity_of s' (OrbRef 0)) = Vec3 0 0 (-4.9))"
proof -
  let ?call = "(\<lambda>cb args t. if cb = 0 then Some (Inl (NonException ''SystemExit'' []), t)
                   else Some (Inl (RuntimeError ''second''), t)) :: nat calling"
  let ?args = "[OrbRef 0, GroundRef]"
  let ?s = "on_event ''impact'' 1 (on_event ''impact'' 0 (init_editor :: nat editor))"
  let ?t = "on_event ''impact'' 1 (on_event ''impact'' 0
                  (snd (create_orb (Tuple3 0 0 (-5)) (init_editor :: nat editor))))"
  define s0 where "s0 = ?s"
  have "handlers_of (init_editor :: nat editor) ''impact'' = []"
    by (simp add: handlers_of_def)
  then have hs: "handlers_of s0 ''impact'' = [0, 1]"
    by (simp add: s0_def handlers_of_on_event)
  have "trigger_event ?call ''impact'' ?args s0 = Some (Inl (NonException ''SystemExit'' []), s0)"
    unfolding trigger_event_def by (simp add: trigger_from_unfold hs)
  then have a: "trigger_event ?call ''impact'' ?args ?s = Some (Inl (NonException ''SystemExit'' []), ?s)"
    by (simp only: s0_def)
  have b: "stdout ?s = []" by (simp add: on_event_frame)
  define t3 where "t3 = setZ (node (orbs ?t ! 0)) 0 (advance_orb 1 0 ?t)"
  have land: "getZ (advance_orb 1 0 ?t) (node (orbs ?t ! 0)) \<le> 0"
    using advance_orb_pos [of 1 0 ?t] by (simp add: first_orb_registered getZ_def)
  have "handlers_of ?t ''impact'' = [0, 1]"
    by (rule first_orb_registered(4))
  then have h3: "handlers_of t3 ''impact'' = [0, 1]"
    by (simp add: t3_def handlers_of_def)
  have v3: "vecs t3 (velocity_of t3 (OrbRef 0)) = Vec3 0 0 (-4.9)"
    using advance_orb_vel [of 1 0 ?t] by (simp add: t3_def first_orb_registered)
  have o3: "stdout t3 = []"
    by (simp add: t3_def first_orb_registered setZ_def setPos_def)
  have "trigger_event ?call ''impact'' ?args t3 = Some (Inl (NonException ''SystemExit'' []), t3)"
    unfolding trigger_event_def by (simp add: trigger_from_unfold h3)
  then have "step_orb ?call 1 0 ?t = Some (Inl (NonException ''SystemExit'' []), t3)"
    using step_orb_landing [OF land, of ?call] by (simp add: t3_def)
  then have "update_physics ?call 1 ?t = Some (Inl (NonException ''SystemExit'' []), t3)"
    unfolding update_physics_def by (simp add: physics_from_unfold first_orb_registered)
  with v3 o3 have c: "\<exists>s'. update_physics ?call 1 ?t = Some (Inl (NonException ''SystemExit'' []), s')
        \<and> stdout s' = [] \<and> vecs s' (velocity_of s' (OrbRef 0)) = Vec3 0 0 (-4.9)"
    by blast
  from a b c show ?thesis by (intro conjI)
qed

section \<open>Impact\<close>







section \<open>An orb at rest on the ground\<close>

lemma advance_orb_at_rest:
  assumes "vecs s (velocity (orbs s ! i)) = Vec3 0 0 0"
  shows "advance_orb dt i s = s"
proof -
  have "vec_add p (Vec3 0 0 0) = p" for p by (cases p) simp
  moreover have "(vecs s)(velocity (orbs s ! i) := Vec3 0 0 0) = vecs s"
    using assms by (metis fun_upd_triv)
  ultimately show ?thesis using assms
    by (simp add: advance_orb_def setPos_def getPos_def Let_def)
qed

lemma setZ_at_ground:
  assumes "getZ s n = 0"
  shows "setZ n 0 s = s"
proof -
  have "setZ_vec p 0 = p" if "getZ_vec p = 0" for p using that by (cases p) simp
  then show ?thesis using assms
    by (simp add: setZ_def setPos_def getPos_def getZ_def)
qed

lemma step_orb_at_rest:
  assumes "getZ s (node (orbs s ! i)) = 0" and "vecs s (velocity (orbs s ! i)) = Vec3 0 0 0"
  shows "step_orb call dt i s =
     (case trigger_event call ''impact'' [OrbRef i, GroundRef] s of
        None \<Rightarrow> None
      | Some (Inl e, s4) \<Rightarrow> Some (Inl e, s4)
      | Some (Inr u, s4) \<Rightarrow> Some (Inr (), stop_orb i s4))"
  using assms by (simp add: step_orb_def advance_orb_at_rest setZ_at_ground Let_def)


lemma tick_one_orb_landing:
  assumes o: "orbs s = [orb]" and land: "getZ (advance_orb dt 0 s) (node orb) \<le> 0"
    and hs: "handlers_of s ''impact'' = [cb]"
  shows "update_physics (\<lambda>cb args t. Some (Inl (RuntimeError ''impact''), t)) dt s =
           Some (Inr (), stop_orb 0 (print ''Error in event handler: impact''
                                      (setZ (node orb) 0 (advance_orb dt 0 s))))"
proof -
  let ?call = "\<lambda>cb args t. Some (Inl (RuntimeError ''impact''), t)"
  define s3 where "s3 = setZ (node orb) 0 (advance_orb dt 0 s)"
  have hs3: "handlers_of s3 ''impact'' = [cb]"
    using hs by (simp add: s3_def handlers_of_def)
  have "trigger_event ?call ''impact'' [OrbRef 0, GroundRef] s3 =
          Some (Inr (), print ''Error in event handler: impact'' s3)"
    unfolding trigger_event_def
    by (simp add: trigger_from_unfold hs3 trigger_from_end)
  then have step: "step_orb ?call dt 0 s = Some (Inr (), stop_orb 0 (print ''Error in event handler: impact'' s3))"
    using step_orb_landing [of dt 0 s ?call] land o by (simp add: s3_def)
  have len: "length (orbs (stop_orb 0 (print ''Error in event handler: impact'' s3))) = 1"
    by (simp add: s3_def print_def o)
  have "update_physics ?call dt s = physics_from ?call dt (Suc 0) (stop_orb 0 (print ''Error in event handler: impact'' s3))"
    unfolding update_physics_def by (simp add: physics_from_unfold o step)
  also have "\<dots> = Some (Inr (), stop_orb 0 (print ''Error in event handler: impact'' s3))"
    by (rule physics_from_end) (simp add: s3_def print_def o)
  finally show ?thesis by (simp add: s3_def)
qed

lemma print_frame [simp]:
  "orbs (print l s) = orbs s"
  "vecs (print l s) = vecs s"
  "nodes (print l s) = nodes s"
  "player (print l s) = player s"
  "next_vec (print l s) = next_vec s"
  "stdout (print l s) = stdout s @ [l]"
  by (simp_all add: print_def)

lemma getZ_frame [simp]:
  "getZ (stop_orb i s) n = getZ s n"
  "getZ (print l s) n = getZ s n"
  by (simp_all add: getZ_def getPos_def)

lemma handlers_of_frame [simp]:
  "handlers_of (stop_orb i s) ev = handlers_of s ev"
  "handlers_of (setZ n h s) ev = handlers_of s ev"
  "handlers_of (advance_orb dt i s) ev = handlers_of s ev"
  by (simp_all add: handlers_of_def)

lemma landed_state:
  assumes o: "orbs s = [orb]"
    and s': "s' = stop_orb 0 (print ''Error in event handler: impact'' (setZ (node orb) 0 (advance_orb dt 0 s)))"
  shows "\<exists>orb'. orbs s' = [orb'] \<and> node orb' = node orb \<and> vecs s' (velocity orb') = Vec3 0 0 0"
    and "getZ s' (node orb) = 0"
    and "stdout s' = stdout s @ [''Error in event handler: impact'']"
    and "handlers_of s' ''impact'' = handlers_of s ''impact''"
proof -
  show "\<exists>orb'. orbs s' = [orb'] \<and> node orb' = node orb \<and> vecs s' (velocity orb') = Vec3 0 0 0"
    by (simp add: s' stop_orb_def new_vec_def o)
  show "getZ s' (node orb) = 0" by (simp add: s')
  show "stdout s' = stdout s @ [''Error in event handler: impact'']"
    by (simp add: s' setZ_def setPos_def)
  show "handlers_of s' ''impact'' = handlers_of s ''impact''" by (simp add: s')
qed


lemma tick_one_orb_resting:
  assumes o: "orbs s = [orb]" and z: "getZ s (node orb) = 0" and v: "vecs s (velocity orb) = Vec3 0 0 0"
    and hs: "handlers_of s ''impact'' = [cb]"
  shows "\<exists>s' orb'. update_physics (\<lambda>cb args t. Some (Inl (RuntimeError ''impact''), t)) dt s = Some (Inr (), s')
           \<and> orbs s' = [orb'] \<and> getZ s' (node orb') = 0 \<and> vecs s' (velocity orb') = Vec3 0 0 0
           \<and> handlers_of s' ''impact'' = [cb]
           \<and> stdout s' = stdout s @ [''Error in event handler: impact'']"
proof -
  let ?s' = "stop_orb 0 (print ''Error in event handler: impact'' (setZ (node orb) 0 (advance_orb dt 0 s)))"
  have "advance_orb dt 0 s = s" by (rule advance_orb_at_rest) (simp add: o v)
  then have land: "getZ (advance_orb dt 0 s) (node orb) \<le> 0" by (simp add: z)
  note tick = tick_one_orb_landing [OF o land hs]
  from landed_state [OF o refl, of dt] obtain orb' where
    "orbs ?s' = [orb']" "node orb' = node orb" "vecs ?s' (velocity orb') = Vec3 0 0 0"
    "getZ ?s' (node orb) = 0" "stdout ?s' = stdout s @ [''Error in event handler: impact'']"
    "handlers_of ?s' ''impact'' = handlers_of s ''impact''"
    by blast
  with tick hs show ?thesis by (intro exI [of _ ?s'] exI [of _ orb']) simp
qed

text \<open>
  C5. The landing itself is as described (height set to 0, one dispatch with the orb
  and the ground, velocity zeroed), but the orb then lies at height 0, where the test
  \<^verbatim>\<open>getZ() <= 0\<close> holds on every later tick. The run below registers one callback,
  creates one orb and ticks three times: after the first tick the orb rests on the
  ground with zero velocity and one report is on the output; the two ticks that follow
  dispatch \<^verbatim>\<open>impact\<close> again, once each.
\<close>

theorem resting_orb_impacts_every_tick:
  "\<exists>s2 s4.
      perform_all (\<lambda>cb args t. Some (Inl (RuntimeError ''impact''), t))
        [Create_orb (Tuple3 0 0 (-5)), On_event ''impact'' (0::nat), Update_physics 1] init_editor = Some s2
    \<and> getZ s2 (node (orbs s2 ! 0)) = 0
    \<and> vecs s2 (velocity (orbs s2 ! 0)) = Vec3 0 0 0
    \<and> stdout s2 = [''Error in event handler: impact'']
    \<and> perform_all (\<lambda>cb args t. Some (Inl (RuntimeError ''impact''), t))
        [Update_physics 1, Update_physics 1] s2 = Some s4
    \<and> stdout s4 = [''Error in event handler: impact'', ''Error in event handler: impact'',
                     ''Error in event handler: impact'']"
proof -
  let ?call = "(\<lambda>cb args t. Some (Inl (RuntimeError ''impact''), t)) :: nat calling"
  let ?s1 = "on_event ''impact'' (0::nat) (snd (create_orb (Tuple3 0 0 (-5)) init_editor))"
  let ?orb = "\<lparr>name = ''orb'', node = 2, velocity = 5, element = None\<rparr>"
  have orb: "orbs ?s1 = [?orb]"
    and v: "vecs ?s1 5 = Vec3 0 0 (-5)" and p: "getPos ?s1 2 = Vec3 0 2 1.5"
    and out: "stdout ?s1 = []"
    by (simp_all add: on_event_frame first_orb)
  have "handlers_of (snd (create_orb (Tuple3 0 0 (-5)) (init_editor :: nat editor))) ''impact'' = []"
    by (simp add: handlers_of_def first_orb)
  then have hs: "handlers_of ?s1 ''impact'' = [0]"
    by (simp add: handlers_of_on_event)
  have land: "getZ (advance_orb 1 0 ?s1) (node ?orb) \<le> 0"
    using advance_orb_pos [of 1 0 ?s1] by (simp add: orb v p getZ_def)
  define s2 where "s2 = stop_orb 0 (print ''Error in event handler: impact'' (setZ (node ?orb) 0 (advance_orb 1 0 ?s1)))"
  have t1: "update_physics ?call 1 ?s1 = Some (Inr (), s2)"
    unfolding s2_def by (rule tick_one_orb_landing [OF orb land hs])
  from landed_state [OF orb s2_def] obtain orb2 where s2:
    "orbs s2 = [orb2]" "node orb2 = node ?orb" "vecs s2 (velocity orb2) = Vec3 0 0 0"
    "getZ s2 (node ?orb) = 0" "stdout s2 = stdout ?s1 @ [''Error in event handler: impact'']"
    "handlers_of s2 ''impact'' = handlers_of ?s1 ''impact''"
    by blast
  have z2: "getZ s2 (node orb2) = 0" using s2(2,4) by simp
  have hs2: "handlers_of s2 ''impact'' = [0]" using s2(6) hs by simp
  from tick_one_orb_resting [OF s2(1) z2 s2(3) hs2, of 1]
  obtain s3 orb3 where s3: "update_physics ?call 1 s2 = Some (Inr (), s3)"
    "orbs s3 = [orb3]" "getZ s3 (node orb3) = 0" "vecs s3 (velocity orb3) = Vec3 0 0 0"
    "handlers_of s3 ''impact'' = [0]" "stdout s3 = stdout s2 @ [''Error in event handler: impact'']"
    by auto
  from tick_one_orb_resting [OF s3(2,3,4,5), of 1]
  obtain s4 where s4: "update_physics ?call 1 s3 = Some (Inr (), s4)"
    "stdout s4 = stdout s3 @ [''Error in event handler: impact'']"
    by auto
  have a: "perform_all ?call [Create_orb (Tuple3 0 0 (-5)), On_event ''impact'' (0::nat), Update_physics 1] init_editor = Some s2"
    by (simp add: t1)
  have b: "perform_all ?call [Update_physics 1, Update_physics 1] s2 = Some s4"
    by (simp add: s3(1) s4(1))
  have c: "stdout s4 = [''Error in event handler: impact'', ''Error in event handler: impact'',
                     ''Error in event handler: impact'']"
    by (simp add: s4(2) s3(6) s2(5) out)
  have d: "getZ s2 (node (orbs s2 ! 0)) = 0" "vecs s2 (velocity (orbs s2 ! 0)) = Vec3 0 0 0"
    "stdout s2 = [''Error in event handler: impact'']"
    using s2 z2 out by simp_all
  from a b c d show ?thesis by blast
qed


section \<open>The resource invariant\<close>

lemma trigger_from_invariant:
  assumes run: "trigger_from call ev args k s = Some y"
    and cb: "\<forall>cb a t out t'. call cb a t = Some (out, t') \<longrightarrow> P t \<longrightarrow> P t'"
    and pr: "\<And>l t. P t \<Longrightarrow> P (print l t)"
    and s: "P s"
  shows "P (snd y)"
  using run cb s
proof (induction rule: trigger_from.raw_induct [rotated, consumes 1, case_names step])
  case (step trigger_from call event_type args k s y)
  show ?case
  proof (cases "k < length (handlers_of s event_type)")
    case False
    with "step.hyps" "step.prems" show ?thesis by auto
  next
    case True
    show ?thesis
    proof (cases "call (handlers_of s event_type ! k) args s")
      case None
      with True "step.hyps" show ?thesis by simp
    next
      case (Some r)
      obtain out t where r: "r = (out, t)" by (cases r)
      have Pt: "P t" using "step.prems" Some r by blast
      show ?thesis
      proof (cases out)
        case (Inr u)
        with True Some r "step.hyps" have "trigger_from call event_type args (Suc k) t = Some y" by simp
        then show ?thesis using "step.IH" "step.prems"(1) Pt by blast
      next
        case (Inl e)
        show ?thesis
        proof (cases "is_Exception e")
          case True
          with \<open>k < length (handlers_of s event_type)\<close> Some r Inl "step.hyps"
          have "trigger_from call event_type args (Suc k) (print (''Error in event handler: '' @ str_exc e) t) = Some y"
            by simp
          then show ?thesis using "step.IH" "step.prems"(1) pr [OF Pt] by blast
        next
          case False
          with \<open>k < length (handlers_of s event_type)\<close> Some r Inl "step.hyps" Pt show ?thesis by auto
        qed
      qed
    qed
  qed
qed


lemma resources_nonneg_print: "resources_nonneg t \<Longrightarrow> resources_nonneg (print l t)"
  by (simp add: resources_nonneg_def)

lemma trigger_event_resources:
  assumes "trigger_event call ev args s = Some (out, s')" and "preserves_resources call"
    and "resources_nonneg s"
  shows "resources_nonneg s'"
proof -
  have "resources_nonneg (snd (out, s'))"
    using assms(1) unfolding trigger_event_def
    by (rule trigger_from_invariant)
       (use assms(2,3) in \<open>auto simp: preserves_resources_def resources_nonneg_print\<close>)
  then show ?thesis by simp
qed

lemma step_orb_resources:
  assumes "step_orb call dt i s = Some (out, s')" and "preserves_resources call"
    and "resources_nonneg s"
  shows "resources_nonneg s'"
proof (cases "getZ (advance_orb dt i s) (node (orbs s ! i)) \<le> 0")
  case False
  then have "s' = advance_orb dt i s" using assms(1) by (simp add: step_orb_flying)
  then show ?thesis using assms(3) by (simp add: resources_nonneg_def)
next
  case True
  let ?s3 = "setZ (node (orbs s ! i)) 0 (advance_orb dt i s)"
  have s3: "resources_nonneg ?s3" using assms(3) by (simp add: resources_nonneg_def)
  from assms(1) True obtain o4 s4 where
    t: "trigger_event call ''impact'' [OrbRef i, GroundRef] ?s3 = Some (o4, s4)"
    and s': "s' = s4 \<or> s' = stop_orb i s4"
    by (auto simp: step_orb_landing split: option.splits sum.splits)
  have "resources_nonneg s4" by (rule trigger_event_resources [OF t assms(2) s3])
  with s' show ?thesis by (auto simp: resources_nonneg_def)
qed

lemma physics_from_resources:
  assumes run: "physics_from call dt i s = Some y"
    and cb: "preserves_resources call"
    and s: "resources_nonneg s"
  shows "resources_nonneg (snd y)"
  using run cb s
proof (induction rule: physics_from.raw_induct [rotated, consumes 1, case_names step])
  case (step physics_from call dt i s y)
  show ?case
  proof (cases "i < length (orbs s)")
    case False
    with step.hyps step.prems show ?thesis by auto
  next
    case True
    show ?thesis
    proof (cases "step_orb call dt i s")
      case None
      with True step.hyps show ?thesis by simp
    next
      case (Some r)
      obtain out t where r: "r = (out, t)" by (cases r)
      have Pt: "resources_nonneg t"
        using step_orb_resources [of call dt i s out t] Some r step.prems by simp
      show ?thesis
      proof (cases out)
        case (Inl e)
        with True Some r step.hyps Pt show ?thesis by auto
      next
        case (Inr u)
        with True Some r step.hyps have "physics_from call dt (Suc i) t = Some y" by simp
        then show ?thesis using step.IH step.prems(1) Pt by blast
      qed
    qed
  qed
qed

lemma api_resources:
  assumes "resources_nonneg s"
  shows "resources_nonneg (snd (create_orb f s))"
    and "resources_nonneg (snd (use_fire i s))"
    and "resources_nonneg (snd (use_water i s))"
    and "resources_nonneg (apply_force_to e f s)"
    and "resources_nonneg (on_event ev cb s)"
proof -
  show "resources_nonneg (snd (create_orb f s))"
    using assms
    by (cases f)
       (simp_all add: resources_nonneg_def create_orb_def loadModel_def setScale_def
          setPos_def getPos_def new_vec_def Let_def split: prod.splits)
  show "resources_nonneg (snd (use_fire i s))"
    using assms by (simp add: resources_nonneg_def use_fire_def setColor_def Let_def)
  show "resources_nonneg (snd (use_water i s))"
    using assms by (simp add: resources_nonneg_def use_water_def setColor_def Let_def)
  show "resources_nonneg (apply_force_to e f s)"
    using assms
    by (cases f) (simp_all add: resources_nonneg_def apply_force_to_def new_vec_def Let_def split: prod.splits)
  show "resources_nonneg (on_event ev cb s)"
    using assms by (simp add: resources_nonneg_def on_event_def)
qed

lemma perform_resources:
  assumes "perform call op s = Some s'" and "preserves_resources call" and "resources_nonneg s"
  shows "resources_nonneg s'"
proof (cases op)
  case (Update_physics dt)
  with assms(1) obtain out where "physics_from call dt 0 s = Some (out, s')"
    by (auto simp: update_physics_def)
  from physics_from_resources [OF this assms(2,3)] show ?thesis by simp
next
  case (Trigger_event ev args)
  with assms(1) obtain out where "trigger_event call ev args s = Some (out, s')"
    by auto
  from trigger_event_resources [OF this assms(2,3)] show ?thesis .
qed (use assms(1,3) in \<open>auto simp: api_resources\<close>)

lemma perform_all_resources:
  assumes "perform_all call ops s = Some s'" and "preserves_resources call" and "resources_nonneg s"
  shows "resources_nonneg s'"
  using assms
proof (induction ops arbitrary: s)
  case Nil
  then show ?case by simp
next
  case (Cons op ops)
  then obtain t where t: "perform call op s = Some t" and rest: "perform_all call ops t = Some s'"
    by (auto split: option.splits)
  have "resources_nonneg t" by (rule perform_resources [OF t Cons.prems(2,3)])
  then show ?case using Cons.IH rest Cons.prems(2) by blast
qed

lemma init_resources: "resources_nonneg init_editor"
  by (simp add: resources_nonneg_def)

lemma run_call_resources:
  assumes "resources_nonneg s"
  shows "resources_nonneg (snd (run_call c s))"
proof (cases c)
  case (Call_create_orb f)
  have "snd (run_call c s) = snd (create_orb f s)"
    by (simp add: Call_create_orb split: prod.splits sum.splits)
  then show ?thesis using api_resources(1) [OF assms, of f] by simp
qed (simp_all add: api_resources [OF assms])

lemma run_call_error:
  assumes "run_call c s = (Inl e, s')"
  shows "s' = s" and "is_Exception e"
  using assms
  by (cases c; cases "mana (player s) < 10"; cases "fire (player s) < 5"; cases "water (player s) < 5";
      auto simp: create_orb_def use_fire_def use_water_def Let_def split: prod.splits sum.splits)+

lemma run_calls_resources:
  "resources_nonneg s \<Longrightarrow> resources_nonneg (snd (run_calls cs s))"
proof (induction cs arbitrary: s)
  case Nil
  then show ?case by simp
next
  case (Cons c cs)
  obtain out t where r: "run_call c s = (out, t)" by (cases "run_call c s")
  have t: "resources_nonneg t" using run_call_resources [OF Cons.prems, of c] r by simp
  show ?case
  proof (cases out)
    case (Inl e)
    then show ?thesis using r t by simp
  next
    case (Inr u)
    then show ?thesis using r Cons.IH [OF t] by simp
  qed
qed

lemma api_callback_preserves: "preserves_resources api_callback"
  unfolding preserves_resources_def api_callback_def
  using run_calls_resources by (metis option.inject snd_conv)

text \<open>
  C9. The three balances are non-negative after start-up (100, 50, 50). Each of the five
  API operations, started with non-negative balances, leaves them non-negative, whatever
  its arguments. The physics tick and the dispatch change no balance themselves, and
  run callbacks: when the callbacks keep the invariant, so does every operation, and
  every state that a run of operations reaches from start-up has non-negative balances.
  Callbacks that act through the API alone do keep it, so for them the last statement
  holds with no condition.
\<close>

theorem resources_never_negative:
  "resources_nonneg (init_editor :: 'cb editor)
 \<and> (resources_nonneg s \<longrightarrow>
        resources_nonneg (snd (create_orb f s))
      \<and> resources_nonneg (snd (use_fire i s))
      \<and> resources_nonneg (snd (use_water i s))
      \<and> resources_nonneg (apply_force_to e f s)
      \<and> resources_nonneg (on_event ev cb s))
 \<and> (preserves_resources call \<longrightarrow>
        (\<forall>op t t'. resources_nonneg t \<longrightarrow> perform call op t = Some t' \<longrightarrow> resources_nonneg t')
      \<and> (\<forall>ops t'. perform_all call ops init_editor = Some t' \<longrightarrow> resources_nonneg t'))
 \<and> preserves_resources api_callback
 \<and> (\<forall>ops t'. perform_all api_callback ops init_editor = Some t' \<longrightarrow> resources_nonneg t')"
proof (intro conjI allI impI)
  show "resources_nonneg (init_editor :: 'cb editor)" by (rule init_resources)
next
  fix op t t'
  assume "preserves_resources call" "resources_nonneg t" "perform call op t = Some t'"
  then show "resources_nonneg t'" by (intro perform_resources [of call op t t'])
next
  fix ops t'
  assume "preserves_resources call" "perform_all call ops init_editor = Some t'"
  then show "resources_nonneg t'" using init_resources by (intro perform_all_resources [of call ops init_editor t'])
next
  show "preserves_resources api_callback" by (rule api_callback_preserves)
next
  fix ops t'
  assume "perform_all api_callback ops init_editor = Some t'"
  then show "resources_nonneg t'"
    using api_callback_preserves init_resources by (rule perform_all_resources)
qed (simp_all add: api_resources)


lemma eval_run:
  "\<exists>s'. perform_all (\<lambda>cb args t. Some (use_water 0 t))
          [Create_orb (Tuple3 0 0 (-5)), Use_fire 0, Use_water 0, Apply_force_to (OrbRef 0) (Tuple3 1 0 0),
           On_event ''impact'' (0::nat), Trigger_event ''impact'' [OrbRef 0, GroundRef], Update_physics 1]
          init_editor = Some s'
       \<and> mana (player s') = 90 \<and> fire (player s') = 45 \<and> water (player s') = 35"
  by (simp add: create_orb_def use_fire_def use_water_def apply_force_to_def on_event_def
        loadModel_def setScale_def setPos_def getPos_def setColor_def new_vec_def getZ_def setZ_def
        trigger_event_def trigger_from_unfold trigger_from_end update_physics_def
        physics_from_unfold physics_from_end step_orb_def advance_orb_def stop_orb_def
        handlers_of_def init_editor_def update_stats_def setup_scene_def Let_def
        split: prod.splits)


lemma eval_api_run:
  "\<exists>s'. perform_all api_callback
          [On_event ''impact'' [Call_use_water 0, Call_create_orb (Tuple3 0 0 1)],
           Create_orb (Tuple3 0 0 (-5)), Use_fire 0, Update_physics 1]
          init_editor = Some s'
       \<and> mana (player s') = 80 \<and> fire (player s') = 45 \<and> water (player s') = 45"
  by (simp add: api_callback_def create_orb_def use_fire_def use_water_def apply_force_to_def on_event_def
        loadModel_def setScale_def setPos_def getPos_def setColor_def new_vec_def getZ_def setZ_def
        trigger_event_def trigger_from_unfold trigger_from_end update_physics_def
        physics_from_unfold physics_from_end step_orb_def advance_orb_def stop_orb_def
        handlers_of_def init_editor_def update_stats_def setup_scene_def Let_def
        split: prod.splits)

theorem resources_never_negative_witness:
  "preserves_resources ((\<lambda>cb args t. Some (use_water 0 t)) :: nat calling)
 \<and> (\<exists>s'. perform_all (\<lambda>cb args t. Some (use_water 0 t))
          [Create_orb (Tuple3 0 0 (-5)), Use_fire 0, Use_water 0, Apply_force_to (OrbRef 0) (Tuple3 1 0 0),
           On_event ''impact'' (0::nat), Trigger_event ''impact'' [OrbRef 0, GroundRef], Update_physics 1]
          init_editor = Some s'
        \<and> mana (player s') = 90 \<and> fire (player s') = 45 \<and> water (player s') = 35
        \<and> resources_nonneg s')
 \<and> (\<exists>s'. perform_all api_callback
          [On_event ''impact'' [Call_use_water 0, Call_create_orb (Tuple3 0 0 1)],
           Create_orb (Tuple3 0 0 (-5)), Use_fire 0, Update_physics 1]
          init_editor = Some s'
        \<and> mana (player s') = 80 \<and> fire (player s') = 45 \<and> water (player s') = 45
        \<and> resources_nonneg s')
 \<and> resources_nonneg (init_editor\<lparr>player := (player (init_editor :: nat editor))\<lparr>mana := 5\<rparr>\<rparr> :: nat editor)
 \<and> snd (create_orb (Tuple3 0 0 1)
       (init_editor\<lparr>player := (player (init_editor :: nat editor))\<lparr>mana := 5\<rparr>\<rparr> :: nat editor))
     = (init_editor\<lparr>player := (player (init_editor :: nat editor))\<lparr>mana := 5\<rparr>\<rparr>)
 \<and> resources_nonneg (snd (create_orb (Tuple3 0 0 1)
       (init_editor\<lparr>player := (player (init_editor :: nat editor))\<lparr>mana := 5\<rparr>\<rparr> :: nat editor)))"
proof -
  let ?call = "(\<lambda>cb args t. Some (use_water 0 t)) :: nat calling"
  let ?s5 = "init_editor\<lparr>player := (player (init_editor :: nat editor))\<lparr>mana := 5\<rparr>\<rparr> :: nat editor"
  have h: "preserves_resources ?call"
    by (auto simp: preserves_resources_def dest: api_resources(3) [of _ 0])
  note inv = resources_never_negative [of ?s5 "Tuple3 0 0 1" 0 PlayerRef "''impact''" 0 ?call]
  from eval_run obtain s' where
    run: "perform_all ?call
          [Create_orb (Tuple3 0 0 (-5)), Use_fire 0, Use_water 0, Apply_force_to (OrbRef 0) (Tuple3 1 0 0),
           On_event ''impact'' (0::nat), Trigger_event ''impact'' [OrbRef 0, GroundRef], Update_physics 1]
          init_editor = Some s'"
    and bal: "mana (player s') = 90" "fire (player s') = 45" "water (player s') = 35"
    by blast
  from inv h run have n1: "resources_nonneg s'" by blast
  from eval_api_run obtain t' where
    run2: "perform_all api_callback
          [On_event ''impact'' [Call_use_water 0, Call_create_orb (Tuple3 0 0 1)],
           Create_orb (Tuple3 0 0 (-5)), Use_fire 0, Update_physics 1]
          init_editor = Some t'"
    and bal2: "mana (player t') = 80" "fire (player t') = 45" "water (player t') = 45"
    by blast
  from inv run2 have n2: "resources_nonneg t'" by blast
  have n5: "resources_nonneg ?s5" by (simp add: resources_nonneg_def)
  with inv have n6: "resources_nonneg (snd (create_orb (Tuple3 0 0 1) ?s5))" by blast
  have same: "snd (create_orb (Tuple3 0 0 1) ?s5) = ?s5" by (simp add: create_orb_def)
  have A: "\<exists>s'. perform_all ?call
          [Create_orb (Tuple3 0 0 (-5)), Use_fire 0, Use_water 0, Apply_force_to (OrbRef 0) (Tuple3 1 0 0),
           On_event ''impact'' (0::nat), Trigger_event ''impact'' [OrbRef 0, GroundRef], Update_physics 1]
          init_editor = Some s'
        \<and> mana (player s') = 90 \<and> fire (player s') = 45 \<and> water (player s') = 35
        \<and> resources_nonneg s'"
    using run bal n1 by blast
  have B: "\<exists>s'. perform_all api_callback
          [On_event ''impact'' [Call_use_water 0, Call_create_orb (Tuple3 0 0 1)],
           Create_orb (Tuple3 0 0 (-5)), Use_fire 0, Update_physics 1]
          init_editor = Some s'
        \<and> mana (player s') = 80 \<and> fire (player s') = 45 \<and> water (player s') = 45
        \<and> resources_nonneg s'"
    using run2 bal2 n2 by blast
  from h A B n5 same n6 show ?thesis by (intro conjI)
qed

text \<open>
  A callback is any code that holds the player object. One that assigns
  \<^verbatim>\<open>player.mana = -5\<close> leaves a negative balance after a dispatch, and after the tick
  in which an orb lands. A spell with that one statement does the same, and is
  reported as cast successfully.
\<close>

theorem negative_balance_counterexample:
  "(\<exists>s'. perform_all (\<lambda>cb args t. Some (Inr (), t\<lparr>player := (player t)\<lparr>mana := - 5\<rparr>\<rparr>))
          [On_event ''impact'' (0::nat), Trigger_event ''impact'' [OrbRef 0, GroundRef]]
          init_editor = Some s'
        \<and> mana (player s') = - 5 \<and> \<not> resources_nonneg s')
 \<and> (\<exists>s'. perform_all (\<lambda>cb args t. Some (Inr (), t\<lparr>player := (player t)\<lparr>mana := - 5\<rparr>\<rparr>))
          [On_event ''impact'' (0::nat), Create_orb (Tuple3 0 0 (-5)), Update_physics 1]
          init_editor = Some s'
        \<and> mana (player s') = - 5 \<and> \<not> resources_nonneg s')
 \<and> (\<exists>r. cast_spell (\<lambda>text globals locals t. Some (Inr (), t\<lparr>player := (player t)\<lparr>mana := - 5\<rparr>\<rparr>))
          (init_editor :: nat editor) = Some (Inr (), r)
        \<and> msg_var r = ''Spell cast successfully''
        \<and> mana (player r) = - 5 \<and> \<not> resources_nonneg r)"
  by (simp add: create_orb_def on_event_def resources_nonneg_def cast_spell_def
        loadModel_def setScale_def setPos_def getPos_def new_vec_def getZ_def setZ_def
        trigger_event_def trigger_from_unfold trigger_from_end update_physics_def
        physics_from_unfold physics_from_end step_orb_def advance_orb_def stop_orb_def
        handlers_of_def init_editor_def update_stats_def setup_scene_def Let_def
        split: prod.splits)

section \<open>Casting\<close>

lemma update_stats_frame [simp]:
  "player (update_stats s) = player s"
  "orbs (update_stats s) = orbs s"
  "vecs (update_stats s) = vecs s"
  "nodes (update_stats s) = nodes s"
  "event_handlers (update_stats s) = event_handlers s"
  "msg_var (update_stats s) = msg_var s"
  "stdout (update_stats s) = stdout s"
  by (simp_all add: update_stats_def)

lemma run_calls_fault:
  assumes "fst (run_calls cs s) = Inl e"
  shows "\<exists>k < length cs.
           fst (run_calls (take k cs) s) = Inr ()
         \<and> run_call (cs ! k) (snd (run_calls (take k cs) s)) = (Inl e, snd (run_calls (take k cs) s))
         \<and> snd (run_calls cs s) = snd (run_calls (take k cs) s)
         \<and> is_Exception e"
  using assms
proof (induction cs arbitrary: s)
  case Nil
  then show ?case by simp
next
  case (Cons c cs)
  obtain out t where r: "run_call c s = (out, t)" by (cases "run_call c s")
  show ?case
  proof (cases out)
    case (Inl e')
    with r Cons.prems have e: "e' = e" by simp
    from run_call_error [of c s e t] r Inl e have "t = s" "is_Exception e" by simp_all
    with r Inl e show ?thesis by (intro exI [of _ 0]) simp
  next
    case (Inr u)
    with r Cons.prems have "fst (run_calls cs t) = Inl e" by simp
    from Cons.IH [OF this] obtain k where k: "k < length cs"
      "fst (run_calls (take k cs) t) = Inr ()"
      "run_call (cs ! k) (snd (run_calls (take k cs) t)) = (Inl e, snd (run_calls (take k cs) t))"
      "snd (run_calls cs t) = snd (run_calls (take k cs) t)" "is_Exception e"
      by blast
    with r Inr show ?thesis by (intro exI [of _ "Suc k"]) simp
  qed
qed

text \<open>
  C7. When running the spell ends in an exception of a class under \<^verbatim>\<open>Exception\<close> (an
  API error, a syntax error, a runtime error), \<open>cast_spell\<close> returns normally with the
  message \<^verbatim>\<open>Error: ...\<close> in the message label, and the player, the orbs, the two
  stores and the handlers are exactly as the spell left them at the fault. When the
  spell ends normally the label reads \<^verbatim>\<open>Spell cast successfully\<close>. An exception of any
  other class leaves \<open>cast_spell\<close> as it is, with the state of the fault. For a spell
  that is a sequence of API calls, \<open>cast_spell\<close> always returns normally; when a call
  fails, the calls before it have all succeeded, the failing call changed nothing, and
  the state reported on is the one those earlier calls built.
\<close>

theorem cast_spell_reports:
  "(exec (code s) safe_globals [] s = Some (Inl e, s') \<and> is_Exception e \<longrightarrow>
      (\<exists>r. cast_spell exec s = Some (Inr (), r)
          \<and> r = update_stats (s'\<lparr>msg_var := ''Error: '' @ str_exc e\<rparr>)
          \<and> msg_var r = ''Error: '' @ str_exc e
          \<and> player r = player s' \<and> orbs r = orbs s' \<and> vecs r = vecs s' \<and> nodes r = nodes s'
          \<and> event_handlers r = event_handlers s'))
 \<and> (exec (code s) safe_globals [] s = Some (Inr (), s') \<longrightarrow>
      (\<exists>r. cast_spell exec s = Some (Inr (), r)
          \<and> r = update_stats (s'\<lparr>msg_var := ''Spell cast successfully''\<rparr>)
          \<and> msg_var r = ''Spell cast successfully''
          \<and> player r = player s' \<and> orbs r = orbs s' \<and> vecs r = vecs s' \<and> nodes r = nodes s'
          \<and> event_handlers r = event_handlers s'))
 \<and> (exec (code s) safe_globals [] s = Some (Inl e, s') \<and> \<not> is_Exception e \<longrightarrow>
      cast_spell exec s = Some (Inl e, s'))
 \<and> (\<exists>r. cast_spell (api_spell cs) t = Some (Inr (), r)
        \<and> (case fst (run_calls cs t) of
              Inr u \<Rightarrow> msg_var r = ''Spell cast successfully''
            | Inl x \<Rightarrow> msg_var r = ''Error: '' @ str_exc x)
        \<and> player r = player (snd (run_calls cs t)) \<and> orbs r = orbs (snd (run_calls cs t))
        \<and> vecs r = vecs (snd (run_calls cs t)) \<and> nodes r = nodes (snd (run_calls cs t))
        \<and> event_handlers r = event_handlers (snd (run_calls cs t)))
 \<and> (fst (run_calls cs t) = Inl x \<longrightarrow>
      (\<exists>k < length cs.
           fst (run_calls (take k cs) t) = Inr ()
         \<and> run_call (cs ! k) (snd (run_calls (take k cs) t)) = (Inl x, snd (run_calls (take k cs) t))
         \<and> snd (run_calls cs t) = snd (run_calls (take k cs) t)))"
proof -
  have api: "\<exists>r. cast_spell (api_spell cs) t = Some (Inr (), r)
        \<and> (case fst (run_calls cs t) of
              Inr u \<Rightarrow> msg_var r = ''Spell cast successfully''
            | Inl x \<Rightarrow> msg_var r = ''Error: '' @ str_exc x)
        \<and> player r = player (snd (run_calls cs t)) \<and> orbs r = orbs (snd (run_calls cs t))
        \<and> vecs r = vecs (snd (run_calls cs t)) \<and> nodes r = nodes (snd (run_calls cs t))
        \<and> event_handlers r = event_handlers (snd (run_calls cs t))"
  proof (cases "run_calls cs t")
    case (Pair out u)
    show ?thesis
    proof (cases out)
      case (Inr v)
      with Pair show ?thesis by (simp add: cast_spell_def api_spell_def)
    next
      case (Inl x)
      with Pair have "fst (run_calls cs t) = Inl x" by simp
      from run_calls_fault [OF this] have "is_Exception x" by blast
      with Pair Inl show ?thesis by (simp add: cast_spell_def api_spell_def)
    qed
  qed
  have pre: "\<exists>k < length cs.
           fst (run_calls (take k cs) t) = Inr ()
         \<and> run_call (cs ! k) (snd (run_calls (take k cs) t)) = (Inl x, snd (run_calls (take k cs) t))
         \<and> snd (run_calls cs t) = snd (run_calls (take k cs) t)"
    if "fst (run_calls cs t) = Inl x"
    using run_calls_fault [OF that] by blast
  have gen: "(exec (code s) safe_globals [] s = Some (Inl e, s') \<and> is_Exception e \<longrightarrow>
      (\<exists>r. cast_spell exec s = Some (Inr (), r)
          \<and> r = update_stats (s'\<lparr>msg_var := ''Error: '' @ str_exc e\<rparr>)
          \<and> msg_var r = ''Error: '' @ str_exc e
          \<and> player r = player s' \<and> orbs r = orbs s' \<and> vecs r = vecs s' \<and> nodes r = nodes s'
          \<and> event_handlers r = event_handlers s'))
 \<and> (exec (code s) safe_globals [] s = Some (Inr (), s') \<longrightarrow>
      (\<exists>r. cast_spell exec s = Some (Inr (), r)
          \<and> r = update_stats (s'\<lparr>msg_var := ''Spell cast successfully''\<rparr>)
          \<and> msg_var r = ''Spell cast successfully''
          \<and> player r = player s' \<and> orbs r = orbs s' \<and> vecs r = vecs s' \<and> nodes r = nodes s'
          \<and> event_handlers r = event_handlers s'))
 \<and> (exec (code s) safe_globals [] s = Some (Inl e, s') \<and> \<not> is_Exception e \<longrightarrow>
      cast_spell exec s = Some (Inl e, s'))"
    by (simp add: cast_spell_def)
  from gen api pre show ?thesis by blast
qed


lemma create_orb_ok:
  assumes "10 \<le> mana (player s)"
  shows "create_orb f s = (Inr (length (orbs s)), snd (create_orb f s))"
    and "player (snd (create_orb f s)) = (player s)\<lparr>mana := mana (player s) - 10\<rparr>"
    and "length (orbs (snd (create_orb f s))) = Suc (length (orbs s))"
  using assms
  by (cases f; simp add: create_orb_def loadModel_def setScale_def setPos_def getPos_def
        new_vec_def Let_def split: prod.splits)+

theorem cast_spell_reports_witness:
  "(\<exists>s' r.
      example_spell (code (init_editor\<lparr>player := (player (init_editor :: nat editor))\<lparr>fire := 3\<rparr>\<rparr> :: nat editor))
        safe_globals []
        (init_editor\<lparr>player := (player (init_editor :: nat editor))\<lparr>fire := 3\<rparr>\<rparr> :: nat editor)
      = Some (Inl (RuntimeError ''Not enough fire energy''), s')
    \<and> is_Exception (RuntimeError ''Not enough fire energy'')
    \<and> cast_spell example_spell
        (init_editor\<lparr>player := (player (init_editor :: nat editor))\<lparr>fire := 3\<rparr>\<rparr> :: nat editor)
      = Some (Inr (), r)
    \<and> msg_var r = ''Error: Not enough fire energy''
    \<and> mana (player r) = 90 \<and> fire (player r) = 3 \<and> length (orbs r) = 1
    \<and> mana_var r = ''Mana: 90'')
 \<and> (\<exists>s' r.
      example_spell (code (init_editor :: nat editor)) safe_globals [] (init_editor :: nat editor)
        = Some (Inr (), s')
    \<and> cast_spell example_spell (init_editor :: nat editor) = Some (Inr (), r)
    \<and> msg_var r = ''Spell cast successfully''
    \<and> mana (player r) = 90 \<and> fire (player r) = 45 \<and> element (orbs r ! 0) = Some ''fire'')
 \<and> \<not> is_Exception (NonException ''KeyboardInterrupt'' [])
 \<and> cast_spell (\<lambda>text globals locals t. Some (Inl (NonException ''KeyboardInterrupt'' []), t))
      (init_editor :: nat editor)
    = Some (Inl (NonException ''KeyboardInterrupt'' []), init_editor)
 \<and> fst (run_calls [Call_create_orb (Tuple3 10 0 15), Call_use_fire 0]
           (init_editor\<lparr>player := (player (init_editor :: api_call list editor))\<lparr>fire := 3\<rparr>\<rparr>))
    = Inl (RuntimeError ''Not enough fire energy'')
 \<and> (\<exists>r. cast_spell (api_spell [Call_create_orb (Tuple3 10 0 15), Call_use_fire 0])
           (init_editor\<lparr>player := (player (init_editor :: api_call list editor))\<lparr>fire := 3\<rparr>\<rparr>)
         = Some (Inr (), r)
       \<and> msg_var r = ''Error: Not enough fire energy''
       \<and> mana (player r) = 90 \<and> fire (player r) = 3 \<and> length (orbs r) = 1)
 \<and> (\<exists>k. k < 2
       \<and> fst (run_calls (take k [Call_create_orb (Tuple3 10 0 15), Call_use_fire 0])
                (init_editor\<lparr>player := (player (init_editor :: api_call list editor))\<lparr>fire := 3\<rparr>\<rparr>))
          = Inr ()
       \<and> snd (run_calls [Call_create_orb (Tuple3 10 0 15), Call_use_fire 0]
                (init_editor\<lparr>player := (player (init_editor :: api_call list editor))\<lparr>fire := 3\<rparr>\<rparr>))
          = snd (run_calls (take k [Call_create_orb (Tuple3 10 0 15), Call_use_fire 0])
                (init_editor\<lparr>player := (player (init_editor :: api_call list editor))\<lparr>fire := 3\<rparr>\<rparr>)))"
proof -
  let ?exec = "example_spell :: nat executing"
  let ?e = "RuntimeError ''Not enough fire energy''"
  define s0 where "s0 = (init_editor\<lparr>player := (player (init_editor :: nat editor))\<lparr>fire := 3\<rparr>\<rparr> :: nat editor)"
  have p0: "mana (player s0) = 100" "fire (player s0) = 3" "orbs s0 = []"
    by (simp_all add: s0_def)
  define s1 where "s1 = snd (create_orb (Tuple3 10 0 15) s0)"
  have c1: "create_orb (Tuple3 10 0 15) s0 = (Inr 0, s1)"
    and p1: "mana (player s1) = 90" "fire (player s1) = 3" "length (orbs s1) = 1"
    using create_orb_ok [of s0 "Tuple3 10 0 15"] by (simp_all add: p0 s1_def)
  have f1: "?exec (code s0) safe_globals [] s0 = Some (Inl ?e, s1)"
    using p1 by (simp add: example_spell_def c1 use_fire_def)
  from cast_spell_reports [of ?exec s0 ?e s1 "[]" "init_editor :: api_call list editor"] f1
  obtain r where r: "cast_spell ?exec s0 = Some (Inr (), r)"
    "r = update_stats (s1\<lparr>msg_var := ''Error: '' @ str_exc ?e\<rparr>)"
    "msg_var r = ''Error: '' @ str_exc ?e" "player r = player s1" "orbs r = orbs s1"
    by auto
  have mv: "mana_var r = ''Mana: 90''"
    by (simp add: r(2) update_stats_def p1 str_int_def str_nat.simps)
  have A: "\<exists>s' r. ?exec (code s0) safe_globals [] s0 = Some (Inl ?e, s') \<and> is_Exception ?e
      \<and> cast_spell ?exec s0 = Some (Inr (), r)
      \<and> msg_var r = ''Error: Not enough fire energy''
      \<and> mana (player r) = 90 \<and> fire (player r) = 3 \<and> length (orbs r) = 1
      \<and> mana_var r = ''Mana: 90''"
    using f1 r p1 mv by (intro exI [of _ s1] exI [of _ r]) simp
  define t0 where "t0 = (init_editor :: nat editor)"
  have q0: "mana (player t0) = 100" "fire (player t0) = 50" "orbs t0 = []"
    by (simp_all add: t0_def)
  define t1 where "t1 = snd (create_orb (Tuple3 10 0 15) t0)"
  have d1: "create_orb (Tuple3 10 0 15) t0 = (Inr 0, t1)"
    and q1: "mana (player t1) = 90" "fire (player t1) = 50" "length (orbs t1) = 1"
    using create_orb_ok [of t0 "Tuple3 10 0 15"] by (simp_all add: q0 t1_def)
  define t2 where "t2 = snd (use_fire 0 t1)"
  have u2: "use_fire 0 t1 = (Inr (), t2)"
    and q2: "mana (player t2) = 90" "fire (player t2) = 45" "element (orbs t2 ! 0) = Some ''fire''"
    using q1 by (simp_all add: t2_def use_fire_def setColor_def Let_def)
  have f2: "?exec (code t0) safe_globals [] t0 = Some (Inr (), t2)"
    by (simp add: example_spell_def d1 u2)
  from cast_spell_reports [of ?exec t0 _ t2 "[]" "init_editor :: api_call list editor"] f2
  obtain r2 where r2: "cast_spell ?exec t0 = Some (Inr (), r2)"
    "msg_var r2 = ''Spell cast successfully''" "player r2 = player t2" "orbs r2 = orbs t2"
    by auto
  have B: "\<exists>s' r. ?exec (code t0) safe_globals [] t0 = Some (Inr (), s')
      \<and> cast_spell ?exec t0 = Some (Inr (), r)
      \<and> msg_var r = ''Spell cast successfully''
      \<and> mana (player r) = 90 \<and> fire (player r) = 45 \<and> element (orbs r ! 0) = Some ''fire''"
    using f2 r2 q2 by (intro exI [of _ t2] exI [of _ r2]) simp
  let ?stop = "(\<lambda>text globals locals t. Some (Inl (NonException ''KeyboardInterrupt'' []), t)) :: nat executing"
  have x: "\<not> is_Exception (NonException ''KeyboardInterrupt'' [])" by simp
  have "?stop (code t0) safe_globals [] t0 = Some (Inl (NonException ''KeyboardInterrupt'' []), t0)"
    by simp
  with cast_spell_reports [of ?stop t0 "NonException ''KeyboardInterrupt'' []" t0 "[]"
                              "init_editor :: api_call list editor"] x
  have C: "cast_spell ?stop t0 = Some (Inl (NonException ''KeyboardInterrupt'' []), t0)"
    by blast
  let ?cs = "[Call_create_orb (Tuple3 10 0 15), Call_use_fire 0]"
  define u0 where "u0 = (init_editor\<lparr>player := (player (init_editor :: api_call list editor))\<lparr>fire := 3\<rparr>\<rparr> :: api_call list editor)"
  have g0: "mana (player u0) = 100" "fire (player u0) = 3" "orbs u0 = []"
    by (simp_all add: u0_def)
  define u1 where "u1 = snd (create_orb (Tuple3 10 0 15) u0)"
  have e1: "create_orb (Tuple3 10 0 15) u0 = (Inr 0, u1)"
    and g1: "mana (player u1) = 90" "fire (player u1) = 3" "length (orbs u1) = 1"
    using create_orb_ok [of u0 "Tuple3 10 0 15"] by (simp_all add: g0 u1_def)
  have rc: "run_calls ?cs u0 = (Inl ?e, u1)"
    using g1 by (simp add: e1 use_fire_def)
  then have D1: "fst (run_calls ?cs u0) = Inl ?e" by simp
  note api = cast_spell_reports [of ?exec s0 ?e s1 ?cs u0 ?e]
  from api obtain r3 where r3: "cast_spell (api_spell ?cs) u0 = Some (Inr (), r3)"
    "(case fst (run_calls ?cs u0) of Inr u \<Rightarrow> msg_var r3 = ''Spell cast successfully''
      | Inl x \<Rightarrow> msg_var r3 = ''Error: '' @ str_exc x)"
    "player r3 = player (snd (run_calls ?cs u0))" "orbs r3 = orbs (snd (run_calls ?cs u0))"
    by blast
  have m3: "msg_var r3 = ''Error: Not enough fire energy''"
    using r3(2) unfolding rc by simp
  have b3: "mana (player r3) = 90" "fire (player r3) = 3" "length (orbs r3) = 1"
    using r3(3,4) g1 unfolding rc by simp_all
  have D2: "\<exists>r. cast_spell (api_spell ?cs) u0 = Some (Inr (), r)
       \<and> msg_var r = ''Error: Not enough fire energy''
       \<and> mana (player r) = 90 \<and> fire (player r) = 3 \<and> length (orbs r) = 1"
    using r3(1) m3 b3 by blast
  from api D1 obtain k where k: "k < length ?cs" "fst (run_calls (take k ?cs) u0) = Inr ()"
    "snd (run_calls ?cs u0) = snd (run_calls (take k ?cs) u0)"
    by blast
  from k(1) have "k < 2" by simp
  with k have D3: "\<exists>k. k < 2 \<and> fst (run_calls (take k ?cs) u0) = Inr ()
       \<and> snd (run_calls ?cs u0) = snd (run_calls (take k ?cs) u0)"
    by blast
  from A B x C D1 D2 D3 show ?thesis unfolding s0_def t0_def u0_def by (intro conjI)
qed


text \<open>
  A spell that ends in an exception outside \<^verbatim>\<open>Exception\<close> is not reported. Here the
  spell creates an orb and then raises \<^verbatim>\<open>SystemExit\<close>: the exception leaves
  \<open>cast_spell\<close>, no message is set, and the mana label still shows 100 although 10
  mana has been spent.
\<close>

theorem exit_propagates_counterexample:
  "\<exists>s'. cast_spell
          (\<lambda>text globals locals t. Some (Inl (NonException ''SystemExit'' []), snd (create_orb (Tuple3 10 0 15) t)))
          (init_editor :: nat editor)
        = Some (Inl (NonException ''SystemExit'' []), s')
      \<and> msg_var s' = []
      \<and> mana_var s' = ''Mana: 100''
      \<and> mana (player s') = 90
      \<and> length (orbs s') = 1"
proof -
  define t0 where "t0 = (init_editor :: nat editor)"
  have q0: "mana (player t0) = 100" "orbs t0 = []" "msg_var t0 = []" "mana_var t0 = ''Mana: 100''"
    by (simp_all add: t0_def init_editor_def update_stats_def setup_scene_def str_int_def str_nat.simps)
  define t1 where "t1 = snd (create_orb (Tuple3 10 0 15) t0)"
  have q1: "mana (player t1) = 90" "length (orbs t1) = 1"
    using create_orb_ok [of t0 "Tuple3 10 0 15"] by (simp_all add: q0 t1_def)
  have l1: "msg_var t1 = []" "mana_var t1 = ''Mana: 100''"
    using q0 by (simp_all add: t1_def create_orb_def loadModel_def setScale_def setPos_def getPos_def
        new_vec_def Let_def split: prod.splits)
  have "cast_spell
          (\<lambda>text globals locals t. Some (Inl (NonException ''SystemExit'' []), snd (create_orb (Tuple3 10 0 15) t)))
          t0 = Some (Inl (NonException ''SystemExit'' []), t1)"
    by (simp add: cast_spell_def t1_def)
  with q1 l1 show ?thesis unfolding t0_def by blast
qed


section \<open>The namespace of a spell\<close>

lemma safe_globals_eq:
  "safe_globals =
     [(''__builtins__'', DictObject allowed_builtins), (''player'', PlayerObject),
      (''create_orb'', BoundMethod Application ''create_orb''),
      (''use_fire'', BoundMethod Application ''use_fire''),
      (''use_water'', BoundMethod Application ''use_water''),
      (''apply_force_to'', BoundMethod Application ''apply_force_to''),
      (''on_event'', BoundMethod Application ''on_event'')]"
  by (simp add: safe_globals_def)

text \<open>
  C8. The namespace binds exactly the five API names, \<^verbatim>\<open>player\<close> and
  \<^verbatim>\<open>__builtins__\<close> with \<^verbatim>\<open>range\<close>, \<^verbatim>\<open>min\<close> and \<^verbatim>\<open>max\<close>, and a name outside
  it (\<^verbatim>\<open>open\<close>) raises \<^verbatim>\<open>NameError\<close>, which \<open>cast_spell\<close> reports. But the
  objects bound there lead out of it: \<^verbatim>\<open>create_orb.__self__\<close> is the application
  object and \<^verbatim>\<open>min.__self__\<close> the module \<^verbatim>\<open>builtins\<close>, neither of which any name
  of the namespace denotes, and a spell that evaluates one ends normally, reported as
  cast successfully.
\<close>

theorem reflection_leaves_the_namespace:
  "map fst safe_globals =
     [''__builtins__'', ''player'', ''create_orb'', ''use_fire'', ''use_water'', ''apply_force_to'', ''on_event'']
 \<and> map fst allowed_builtins = [''range'', ''min'', ''max'']
 \<and> eval_expr [] safe_globals (Name ''open'') = Inl (name_error ''open'')
 \<and> eval_expr [] safe_globals (SelfOf (Name ''create_orb'')) = Inr Application
 \<and> eval_expr [] safe_globals (SelfOf (Name ''min'')) = Inr BuiltinsModule
 \<and> (\<forall>x. lookup_name [] safe_globals x \<noteq> Inr Application \<and> lookup_name [] safe_globals x \<noteq> Inr BuiltinsModule)
 \<and> cast_spell (exec_expr (SelfOf (Name ''min''))) (init_editor :: nat editor)
      = Some (Inr (), update_stats (init_editor\<lparr>msg_var := ''Spell cast successfully''\<rparr>))
 \<and> cast_spell (exec_expr (Name ''open'')) (init_editor :: nat editor)
      = Some (Inr (), update_stats (init_editor\<lparr>msg_var := ''Error: name '' @ [CHR 0x27] @ ''open'' @ [CHR 0x27] @ '' is not defined''\<rparr>))"
proof -
  have names: "lookup_name [] safe_globals x \<noteq> Inr Application \<and> lookup_name [] safe_globals x \<noteq> Inr BuiltinsModule" for x
    by (simp add: lookup_name_def safe_globals_eq allowed_builtins_def)
  have a: "eval_expr [] safe_globals (Name ''open'') = Inl (name_error ''open'')"
    and b: "eval_expr [] safe_globals (SelfOf (Name ''create_orb'')) = Inr Application"
    and c: "eval_expr [] safe_globals (SelfOf (Name ''min'')) = Inr BuiltinsModule"
    by (simp_all add: lookup_name_def safe_globals_eq allowed_builtins_def)
  have d: "cast_spell (exec_expr (SelfOf (Name ''min''))) (init_editor :: nat editor)
      = Some (Inr (), update_stats (init_editor\<lparr>msg_var := ''Spell cast successfully''\<rparr>))"
    by (simp add: cast_spell_def exec_expr_def c del: eval_expr.simps)
  have e: "cast_spell (exec_expr (Name ''open'')) (init_editor :: nat editor)
      = Some (Inr (), update_stats (init_editor\<lparr>msg_var := ''Error: name '' @ [CHR 0x27] @ ''open'' @ [CHR 0x27] @ '' is not defined''\<rparr>))"
    by (simp add: cast_spell_def exec_expr_def a name_error_def del: eval_expr.simps)
  show ?thesis
    using names a b c d e by (simp add: safe_globals_eq allowed_builtins_def del: eval_expr.simps)
qed

end
